theory Spec2Isabelle
  imports Main
begin

section \<open>Values, objects and the world of the actor\<close>

text \<open>
  The actor of \<^verbatim>\<open>main.js\<close> is embedded function by function. A JavaScript
  object property that may be missing is a \<open>field\<close>: \<open>Absent\<close> is the property that was
  never written (it reads as \<open>undefined\<close>), \<open>Null\<close> is the value \<open>null\<close>.
\<close>

datatype 'a field = Absent | Null | Present 'a

text \<open>An exception carries its \<open>message\<close>, the only part of it the source reads.\<close>

datatype js_error = JsError (message: string)

text \<open>The pieces of a template literal, kept apart so that no number is ever printed.\<close>

datatype js_value = JStr string | JNum int | JBool bool

datatype log_entry = Info "js_value list" | Error "js_value list"

text \<open>One tender, with the fields of the documented output record. The source never builds one.\<close>

record tender =
  title :: string
  status :: string
  deadline :: string
  source_portal :: string

record tender_data =
  open_count :: int
  closed_count :: int
  tenders :: "tender list"
  last_tender_date :: "string field"

text \<open>
  A company object. The seed data writes the first seven properties; enrichment and the
  tender pass write the others.
\<close>

record company =
  rank :: int
  company_name :: string
  industry :: string
  hq_city :: string
  metric_type :: string
  metric_value :: int
  website_url :: "string field"
  emails :: "string list field"
  phones :: "string list field"
  address :: "string field"
  imprint_url :: "string field"
  tender_data :: "tender_data field"

text \<open>The local object \<open>contactInfo\<close> of \<open>scrapContactPages\<close>.\<close>

record contactInfo =
  ci_emails :: "string list"
  ci_phones :: "string list"
  ci_address :: string
  ci_imprint_url :: string

text \<open>What \<open>dataset.pushData\<close> receives: the company's properties and \<open>scraped_at\<close>.\<close>

record dataset_item =
  pushed :: company
  scraped_at :: string

text \<open>The two regular expressions of \<open>scrapContactPages\<close>, both with the global flag.\<close>

datatype regex = emailRegex | phoneRegex

text \<open>
  The libraries and the outside world, none of which is in the repository:
  \<^item> \<open>http_get k url\<close> is what the \<open>k\<close>-th call of \<open>axios.get\<close> of the run does when it is
    asked for \<open>url\<close>: it throws, or it yields the response body;
  \<^item> \<open>load_text\<close> is \<open>cheerio.load\<close> followed by \<open>$.text()\<close>, which may throw;
  \<^item> \<open>string_match r text\<close> is \<open>text.match(r)\<close>: \<open>None\<close> is \<open>null\<close> (no match);
  \<^item> \<open>date_now k\<close> is the \<open>k\<close>-th reading of the clock, as an ISO string;
  \<^item> \<open>queue_create c\<close> is \<open>new PQueue({ concurrency: c })\<close> of \<open>p-queue\<close>, which throws
    or builds the queue;
  \<^item> \<open>max_arguments\<close> is the largest number of arguments the engine takes in one call: a
    call \<open>f(...xs)\<close> with a longer \<open>xs\<close> throws \<open>RangeError\<close>.
\<close>

record env =
  http_get :: "nat \<Rightarrow> string \<Rightarrow> js_error + string"
  load_text :: "string \<Rightarrow> js_error + string"
  string_match :: "regex \<Rightarrow> string \<Rightarrow> string list option"
  date_now :: "nat \<Rightarrow> string"
  queue_create :: "int \<Rightarrow> js_error + unit"
  max_arguments :: nat

text \<open>
  The state a run changes: the object store (a reference is an address, \<open>next_ref\<close> the
  first unused one), the URLs given to \<open>axios.get\<close> so far, the log, the dataset and the
  number of clock readings. A variable that holds a company holds a reference; the store
  is needed because \<open>enrichCompanyContact\<close> copies its argument and Task C writes into the
  copies. A reference always denotes an object: a call with \<open>undefined\<close> or \<open>null\<close> in the
  place of a company is outside the model.
\<close>

type_synonym ref = nat

record world =
  heap :: "ref \<Rightarrow> company"
  next_ref :: ref
  requests :: "string list"
  console :: "log_entry list"
  dataset :: "dataset_item list"
  clock_reads :: nat

section \<open>Statements that may throw\<close>

text \<open>
  A sequence of statements is a function from a state to an outcome and the new state;
  the outcome is the value (\<open>Inr\<close>) or the exception thrown (\<open>Inl\<close>). What was written to
  the state before an exception stays written. An \<open>async\<close> function body is an \<open>action\<close>:
  its state is the world. Every \<open>await\<close> of the source waits for the awaited call to
  settle, so awaited calls run one after the other.
\<close>

type_synonym ('s, 'a) stateful = "'s \<Rightarrow> (js_error + 'a) \<times> 's"

type_synonym 'a action = "(world, 'a) stateful"

definition ret :: "'a \<Rightarrow> ('s, 'a) stateful" where
  "ret x = (\<lambda>w. (Inr x, w))"

definition throw :: "js_error \<Rightarrow> ('s, 'a) stateful" where
  "throw e = (\<lambda>w. (Inl e, w))"

definition bind_action :: "('s, 'a) stateful \<Rightarrow> ('a \<Rightarrow> ('s, 'b) stateful) \<Rightarrow> ('s, 'b) stateful" where
  "bind_action m f = (\<lambda>w. case m w of (Inl e, w') \<Rightarrow> (Inl e, w') | (Inr x, w') \<Rightarrow> f x w')"

definition try_catch :: "('s, 'a) stateful \<Rightarrow> (js_error \<Rightarrow> ('s, 'a) stateful) \<Rightarrow> ('s, 'a) stateful" where
  "try_catch m handler = (\<lambda>w. case m w of (Inl e, w') \<Rightarrow> handler e w' | (Inr x, w') \<Rightarrow> (Inr x, w'))"

text \<open>
  \<open>for (const x of xs) { ... }\<close> over a local variable \<open>s\<close> that the body updates. The
  loop stops at the first exception the body lets through.
\<close>

fun for_of :: "'a list \<Rightarrow> ('a \<Rightarrow> 'v \<Rightarrow> ('s, 'v) stateful) \<Rightarrow> 'v \<Rightarrow> ('s, 'v) stateful" where
  "for_of [] body s = ret s"
| "for_of (x # xs) body s = bind_action (body x s) (for_of xs body)"

text \<open>\<open>Apify.utils.log.info\<close> and \<open>Apify.utils.log.error\<close> add a line to the log and return.\<close>

definition log_info :: "js_value list \<Rightarrow> unit action" where
  "log_info msg = (\<lambda>w. (Inr (), w\<lparr>console := console w @ [Info msg]\<rparr>))"

definition log_error :: "js_value list \<Rightarrow> unit action" where
  "log_error msg = (\<lambda>w. (Inr (), w\<lparr>console := console w @ [Error msg]\<rparr>))"

subsection \<open>Objects\<close>

definition new_object :: "company \<Rightarrow> ref action" where
  "new_object c = (\<lambda>w. (Inr (next_ref w),
     w\<lparr>heap := (heap w)(next_ref w := c), next_ref := Suc (next_ref w)\<rparr>))"

definition read_object :: "ref \<Rightarrow> company action" where
  "read_object r = (\<lambda>w. (Inr (heap w r), w))"

definition write_object :: "ref \<Rightarrow> (company \<Rightarrow> company) \<Rightarrow> unit action" where
  "write_object r f = (\<lambda>w. (Inr (), w\<lparr>heap := (heap w)(r := f (heap w r))\<rparr>))"

text \<open>\<open>{ ...company }\<close>: a new object with the properties of \<open>company\<close>.\<close>

definition spread :: "ref \<Rightarrow> ref action" where
  "spread r = bind_action (read_object r) new_object"

subsection \<open>Library calls\<close>

text \<open>\<open>axios.get(url, ...)\<close>: the request is recorded, then answered by the outside world.\<close>

definition axios_get :: "env \<Rightarrow> string \<Rightarrow> string action" where
  "axios_get e url = (\<lambda>w. (http_get e (length (requests w)) url, w\<lparr>requests := requests w @ [url]\<rparr>))"

definition cheerio_text :: "env \<Rightarrow> string \<Rightarrow> string action" where
  "cheerio_text e html = (\<lambda>w. (load_text e html, w))"

text \<open>\<open>text.match(r) || []\<close>\<close>

definition match_or_empty :: "env \<Rightarrow> regex \<Rightarrow> string \<Rightarrow> string list" where
  "match_or_empty e r text = (case string_match e r text of None \<Rightarrow> [] | Some ms \<Rightarrow> ms)"

text \<open>\<open>s.includes(sub)\<close>\<close>

fun starts_with :: "string \<Rightarrow> string \<Rightarrow> bool" where
  "starts_with s [] = True"
| "starts_with [] (c # sub) = False"
| "starts_with (d # s) (c # sub) = (d = c \<and> starts_with s sub)"

fun str_includes :: "string \<Rightarrow> string \<Rightarrow> bool" where
  "str_includes [] sub = starts_with [] sub"
| "str_includes (c # s) sub = (starts_with (c # s) sub \<or> str_includes s sub)"

text \<open>
  \<open>[...new Set(xs)]\<close>: a \<open>Set\<close> keeps its members in insertion order, and adding a member
  it already has changes nothing.
\<close>

definition set_add :: "'a list \<Rightarrow> 'a \<Rightarrow> 'a list" where
  "set_add members x = (if x \<in> set members then members else members @ [x])"

definition new_Set :: "'a list \<Rightarrow> 'a list" where
  "new_Set xs = foldl set_add [] xs"

text \<open>
  \<open>xs.push(...ys)\<close>: the call has as many arguments as \<open>ys\<close> has entries; when the engine
  does not take that many it throws and \<open>xs\<close> is as it was.
\<close>

definition push_spread :: "env \<Rightarrow> 'a list \<Rightarrow> 'a list \<Rightarrow> js_error + 'a list" where
  "push_spread e xs ys =
     (if length ys \<le> max_arguments e then Inr (xs @ ys)
      else Inl (JsError ''Maximum call stack size exceeded''))"

subsection \<open>A local object\<close>

text \<open>
  Statements that write into an object of the enclosing function run on the world
  together with that object: \<open>in_world\<close> is a call that does not touch the object,
  \<open>update_object\<close> a write to it that may throw (the object is then unchanged), and
  \<open>with_object\<close> runs such statements from a new object and yields the object as they
  left it.
\<close>

definition in_world :: "'a action \<Rightarrow> (world \<times> 'o, 'a) stateful" where
  "in_world m = (\<lambda>(w, obj). case m w of (outcome, w') \<Rightarrow> (outcome, (w', obj)))"

definition update_object :: "('o \<Rightarrow> js_error + 'o) \<Rightarrow> (world \<times> 'o, unit) stateful" where
  "update_object f =
     (\<lambda>(w, obj). case f obj of Inl err \<Rightarrow> (Inl err, (w, obj)) | Inr obj' \<Rightarrow> (Inr (), (w, obj')))"

definition with_object :: "'o \<Rightarrow> (world \<times> 'o, 'a) stateful \<Rightarrow> 'o action" where
  "with_object init m =
     (\<lambda>w. case m (w, init) of
        (Inl err, (w', obj)) \<Rightarrow> (Inl err, w')
      | (Inr x, (w', obj)) \<Rightarrow> (Inr obj, w'))"

section \<open>scrapContactPages\<close>

definition pagesToScrape :: "string list" where
  "pagesToScrape = [''/'', ''/contact'', ''/kontakt'', ''/impressum'', ''/imprint'', ''/about'', ''/ubersicht'']"

text \<open>
  The body of the \<open>try\<close> block for one path. It writes into \<open>contactInfo\<close> in three
  steps, and the two calls of \<open>push\<close> may throw: what was pushed before stays pushed.
\<close>

definition scrape_page :: "env \<Rightarrow> string \<Rightarrow> string \<Rightarrow> (world \<times> contactInfo, unit) stateful" where
  "scrape_page e websiteUrl path =
     (let fullUrl = websiteUrl @ path in
      bind_action (in_world (axios_get e fullUrl)) (\<lambda>response.
      bind_action (in_world (cheerio_text e response)) (\<lambda>text.
      let emails = match_or_empty e emailRegex text in
      bind_action (update_object (\<lambda>contactInfo.
         case push_spread e (ci_emails contactInfo) emails of
           Inl err \<Rightarrow> Inl err
         | Inr extended \<Rightarrow> Inr (contactInfo\<lparr>ci_emails := extended\<rparr>))) (\<lambda>_.
      let phones = match_or_empty e phoneRegex text in
      bind_action (update_object (\<lambda>contactInfo.
         case push_spread e (ci_phones contactInfo) phones of
           Inl err \<Rightarrow> Inl err
         | Inr extended \<Rightarrow> Inr (contactInfo\<lparr>ci_phones := extended\<rparr>))) (\<lambda>_.
      if str_includes path ''imprint'' \<or> str_includes path ''impressum''
      then update_object (\<lambda>contactInfo. Inr (contactInfo\<lparr>ci_imprint_url := fullUrl\<rparr>))
      else ret ())))))"

text \<open>The loop over the paths: the \<open>catch\<close> block is empty and the loop goes on.\<close>

definition scrape_pages :: "env \<Rightarrow> string \<Rightarrow> string list \<Rightarrow> (world \<times> contactInfo, unit) stateful" where
  "scrape_pages e websiteUrl paths =
     for_of paths (\<lambda>path _.
       try_catch (scrape_page e websiteUrl path) (\<lambda>err. ret ())) ()"

definition scrapContactPages :: "env \<Rightarrow> string \<Rightarrow> contactInfo action" where
  "scrapContactPages e websiteUrl =
     bind_action
       (with_object \<lparr>ci_emails = [], ci_phones = [], ci_address = [], ci_imprint_url = []\<rparr>
          (scrape_pages e websiteUrl pagesToScrape)) (\<lambda>contactInfo.
     ret (contactInfo\<lparr>ci_emails := new_Set (ci_emails contactInfo),
                       ci_phones := new_Set (ci_phones contactInfo)\<rparr>))"

section \<open>resolveWebsite and enrichCompanyContact\<close>

definition resolveWebsite :: "string \<Rightarrow> string action" where
  "resolveWebsite companyName = try_catch (ret []) (\<lambda>err. ret [])"

text \<open>Whether a string-valued property is truthy: it is there, not \<open>null\<close> and not empty.\<close>

fun truthy :: "string field \<Rightarrow> bool" where
  "truthy Absent = False"
| "truthy Null = False"
| "truthy (Present s) = (s \<noteq> [])"

text \<open>\<open>a || b\<close> on strings.\<close>

definition or_else :: "string \<Rightarrow> string \<Rightarrow> string" where
  "or_else a b = (if a = [] then b else a)"

text \<open>
  The arrays \<open>contactInfo.emails\<close> and \<open>contactInfo.phones\<close> are objects, hence truthy, and
  \<open>contactInfo.emails || []\<close> is \<open>contactInfo.emails\<close>.
\<close>

definition enrichCompanyContact :: "env \<Rightarrow> ref \<Rightarrow> ref action" where
  "enrichCompanyContact e company =
     bind_action (spread company) (\<lambda>enriched.
     bind_action
       (bind_action (read_object enriched) (\<lambda>obj.
          if \<not> truthy (website_url obj)
          then bind_action (resolveWebsite (company_name obj)) (\<lambda>url.
                 write_object enriched (\<lambda>obj. obj\<lparr>website_url := Present url\<rparr>))
          else ret ())) (\<lambda>_.
     bind_action
       (bind_action (read_object enriched) (\<lambda>obj.
          case website_url obj of
            Present websiteUrl \<Rightarrow>
              if websiteUrl \<noteq> []
              then bind_action (scrapContactPages e websiteUrl) (\<lambda>contactInfo.
                     write_object enriched (\<lambda>obj. obj
                       \<lparr>emails := Present (ci_emails contactInfo),
                        phones := Present (ci_phones contactInfo),
                        address := Present (or_else (ci_address contactInfo) []),
                        imprint_url := Present (or_else (ci_imprint_url contactInfo) [])\<rparr>))
              else ret ()
          | Absent \<Rightarrow> ret ()
          | Null \<Rightarrow> ret ())) (\<lambda>_.
     ret enriched)))"

section \<open>scrapeTenderData\<close>

definition scrapeTenderData :: "ref \<Rightarrow> int \<Rightarrow> tender_data action" where
  "scrapeTenderData company lookbackMonths =
     (let tenderData = \<lparr>open_count = 0, closed_count = 0, tenders = [], last_tender_date = Null\<rparr> in
      try_catch
        (bind_action (read_object company) (\<lambda>obj.
         bind_action (log_info [JStr ''Searching tenders for: '', JStr (company_name obj)]) (\<lambda>_.
         ret tenderData)))
        (\<lambda>err.
         bind_action (log_error [JStr ''Tender scraping error: '', JStr (message err)]) (\<lambda>_.
         ret tenderData)))"

section \<open>getSeedCompaniesAustria and scrapeTopCompanies\<close>

text \<open>The three object literals of the seed array.\<close>

definition seed_companies :: "company list" where
  "seed_companies =
     [\<lparr>rank = 1, company_name = ''OMV Aktiengesellschaft'', industry = ''Energy'',
       hq_city = ''Vienna'', metric_type = ''revenue'', metric_value = 62500000000,
       website_url = Present ''https://www.omv.com'', emails = Absent, phones = Absent,
       address = Absent, imprint_url = Absent, tender_data = Absent\<rparr>,
      \<lparr>rank = 2, company_name = ''Voestalpine AG'', industry = ''Steel & Materials'',
       hq_city = ''Linz'', metric_type = ''revenue'', metric_value = 16200000000,
       website_url = Present ''https://www.voestalpine.com'', emails = Absent, phones = Absent,
       address = Absent, imprint_url = Absent, tender_data = Absent\<rparr>,
      \<lparr>rank = 3, company_name = ''Erste Group Bank AG'', industry = ''Finance'',
       hq_city = ''Vienna'', metric_type = ''revenue'', metric_value = 14600000000,
       website_url = Present ''https://www.erstegroup.com'', emails = Absent, phones = Absent,
       address = Absent, imprint_url = Absent, tender_data = Absent\<rparr>]"

text \<open>An array literal of object literals: the objects are created from left to right.\<close>

fun new_objects :: "company list \<Rightarrow> ref list action" where
  "new_objects [] = ret []"
| "new_objects (c # cs) =
     bind_action (new_object c) (\<lambda>r.
     bind_action (new_objects cs) (\<lambda>rs.
     ret (r # rs)))"

definition getSeedCompaniesAustria :: "ref list action" where
  "getSeedCompaniesAustria = new_objects seed_companies"

text \<open>
  \<open>xs.slice(start, fin)\<close> for integer arguments: a negative index counts from the end of
  the array, and both indices are clamped to the array.
\<close>

definition slice :: "'a list \<Rightarrow> int \<Rightarrow> int \<Rightarrow> 'a list" where
  "slice xs start fin =
     (let len = int (length xs);
          k = (if start < 0 then max (len + start) 0 else min start len);
          final = (if fin < 0 then max (len + fin) 0 else min fin len)
      in take (nat (final - k)) (drop (nat k) xs))"

definition scrapeTopCompanies :: "string \<Rightarrow> int \<Rightarrow> ref list action" where
  "scrapeTopCompanies strategy limit =
     try_catch
       (bind_action (log_info [JStr ''Scraping top '', JNum limit, JStr '' companies by '',
                               JStr strategy]) (\<lambda>_.
        bind_action getSeedCompaniesAustria (\<lambda>seedData.
        ret (slice seedData 0 limit))))
       (\<lambda>err.
        bind_action (log_error [JStr ''Error scraping top companies: '', JStr (message err)]) (\<lambda>_.
        ret []))"

section \<open>The actor's main function\<close>

text \<open>
  The actor input with the seven documented properties; \<open>None\<close> is a property the input
  does not have. The destructuring of \<open>main\<close> reads five of them.
\<close>

record actor_input =
  ranking_strategy :: "string option"
  top_n :: "int option"
  include_tenders :: "bool option"
  tender_lookback_months :: "int option"
  max_concurrent_requests :: "int option"
  extract_emails :: "bool option"
  extract_phones :: "bool option"

text \<open>\<open>input || {}\<close>: without an input every property is missing.\<close>

definition no_input :: actor_input where
  "no_input = \<lparr>ranking_strategy = None, top_n = None, include_tenders = None,
     tender_lookback_months = None, max_concurrent_requests = None,
     extract_emails = None, extract_phones = None\<rparr>"

text \<open>A destructuring default: \<open>{ x = d } = obj\<close>.\<close>

definition or_default :: "'a option \<Rightarrow> 'a \<Rightarrow> 'a" where
  "or_default v d = (case v of None \<Rightarrow> d | Some x \<Rightarrow> x)"

text \<open>
  \<open>main\<close> awaits every \<open>queue.add(task)\<close> before it adds the next task; the promise that
  \<open>add\<close> returns settles with the task, so the queue never holds more than one task and
  the tasks run one after the other, in the order of the loop. \<open>queue.onIdle()\<close> then
  finds the queue empty.
\<close>

definition new_PQueue :: "env \<Rightarrow> int \<Rightarrow> unit action" where
  "new_PQueue e concurrency = (\<lambda>w. (queue_create e concurrency, w))"

definition queue_add :: "'a action \<Rightarrow> 'a action" where
  "queue_add task = task"

definition queue_onIdle :: "unit action" where
  "queue_onIdle = ret ()"

text \<open>
  \<open>Apify.openDataset(name)\<close>, \<open>new Date().toISOString()\<close> and \<open>dataset.pushData(item)\<close>.
\<close>

definition openDataset :: "string \<Rightarrow> unit action" where
  "openDataset name = ret ()"

definition date_toISOString :: "env \<Rightarrow> string action" where
  "date_toISOString e = (\<lambda>w. (Inr (date_now e (clock_reads w)), w\<lparr>clock_reads := Suc (clock_reads w)\<rparr>))"

definition pushData :: "dataset_item \<Rightarrow> unit action" where
  "pushData item = (\<lambda>w. (Inr (), w\<lparr>dataset := dataset w @ [item]\<rparr>))"

text \<open>
  Task B. \<open>contact_task\<close> is the function given to \<open>queue.add\<close> for one company, with the
  array \<open>enrichedCompanies\<close> it pushes to; \<open>task_B\<close> is the loop. The call inside the task is
  a parameter: \<open>main\<close> passes \<open>enrichCompanyContact\<close>. Nothing after the \<open>push\<close> can throw,
  so the task ends with the array it has pushed to, or, through the \<open>catch\<close>, with the
  array as it was.
\<close>

definition contact_task :: "(ref \<Rightarrow> ref action) \<Rightarrow> ref \<Rightarrow> ref list \<Rightarrow> ref list action" where
  "contact_task enrich company enrichedCompanies =
     try_catch
       (bind_action (enrich company) (\<lambda>enriched.
        let enrichedCompanies = enrichedCompanies @ [enriched] in
        bind_action (read_object enriched) (\<lambda>obj.
        bind_action (log_info [JStr ''Enriched: '', JStr (company_name obj)]) (\<lambda>_.
        ret enrichedCompanies))))
       (\<lambda>err.
        bind_action (read_object company) (\<lambda>obj.
        bind_action (log_error [JStr ''Error enriching '', JStr (company_name obj),
                                JStr '': '', JStr (message err)]) (\<lambda>_.
        ret enrichedCompanies)))"

definition task_B :: "(ref \<Rightarrow> ref action) \<Rightarrow> ref list \<Rightarrow> ref list action" where
  "task_B enrich companies =
     for_of companies (\<lambda>company enrichedCompanies.
       queue_add (contact_task enrich company enrichedCompanies)) []"

text \<open>
  Task C. \<open>tender_task\<close> is the function given to \<open>queue.add\<close> for one enriched company;
  \<open>task_C\<close> is the loop. The call inside the task is a parameter: \<open>main\<close> passes
  \<open>scrapeTenderData\<close>. The object of the \<open>catch\<close> block has no \<open>last_tender_date\<close>.
\<close>

definition tender_task :: "(ref \<Rightarrow> int \<Rightarrow> tender_data action) \<Rightarrow> int \<Rightarrow> ref \<Rightarrow> unit action" where
  "tender_task tenders_of lookback company =
     try_catch
       (bind_action (tenders_of company lookback) (\<lambda>tenderData.
        bind_action (write_object company (\<lambda>obj. obj\<lparr>tender_data := Present tenderData\<rparr>)) (\<lambda>_.
        bind_action (read_object company) (\<lambda>obj.
        log_info [JStr ''Tenders for '', JStr (company_name obj), JStr '': '',
                  JNum (open_count tenderData), JStr '' open'']))))
       (\<lambda>err.
        bind_action (read_object company) (\<lambda>obj.
        bind_action (log_error [JStr ''Error fetching tenders for '', JStr (company_name obj),
                                JStr '': '', JStr (message err)]) (\<lambda>_.
        write_object company (\<lambda>obj. obj\<lparr>tender_data := Present
          \<lparr>open_count = 0, closed_count = 0, tenders = [], last_tender_date = Absent\<rparr>\<rparr>))))"

definition task_C :: "(ref \<Rightarrow> int \<Rightarrow> tender_data action) \<Rightarrow> int \<Rightarrow> ref list \<Rightarrow> unit action" where
  "task_C tenders_of lookback enrichedCompanies =
     for_of enrichedCompanies (\<lambda>company _.
       queue_add (tender_task tenders_of lookback company)) ()"

text \<open>The loop that saves the enriched objects.\<close>

definition save_results :: "env \<Rightarrow> ref list \<Rightarrow> unit action" where
  "save_results e enrichedCompanies =
     for_of enrichedCompanies (\<lambda>company _.
       bind_action (read_object company) (\<lambda>obj.
       bind_action (date_toISOString e) (\<lambda>now.
       pushData \<lparr>pushed = obj, scraped_at = now\<rparr>))) ()"

text \<open>
  The function given to \<open>Apify.main\<close>, with the two calls inside the tasks as parameters;
  \<open>input\<close> is what \<open>Apify.getInput()\<close> yields.
\<close>

definition main_with ::
  "env \<Rightarrow> (ref \<Rightarrow> ref action) \<Rightarrow> (ref \<Rightarrow> int \<Rightarrow> tender_data action) \<Rightarrow> actor_input option
     \<Rightarrow> unit action" where
  "main_with e enrich tenders_of input =
     (let config = (case input of None \<Rightarrow> no_input | Some given \<Rightarrow> given);
          strategy = or_default (ranking_strategy config) ''revenue'';
          top = or_default (top_n config) 100;
          with_tenders = or_default (include_tenders config) True;
          lookback = or_default (tender_lookback_months config) 12;
          concurrency = or_default (max_concurrent_requests config) 5
      in
      bind_action (log_info [JStr ''Starting Austrian Companies Scraper'']) (\<lambda>_.
      bind_action (log_info [JStr ''Config: Strategy='', JStr strategy, JStr '', Top='', JNum top,
                             JStr '', Tenders='', JBool with_tenders]) (\<lambda>_.
      bind_action (new_PQueue e concurrency) (\<lambda>queue.
      bind_action (openDataset ''companies'') (\<lambda>dataset.
      try_catch
        (bind_action (log_info [JStr ''=== TASK A: Fetching top Austrian companies ==='']) (\<lambda>_.
         bind_action (scrapeTopCompanies strategy top) (\<lambda>companies.
         bind_action (log_info [JStr ''Found '', JNum (int (length companies)), JStr '' companies'']) (\<lambda>_.
         bind_action (log_info [JStr ''=== TASK B: Enriching contact data ==='']) (\<lambda>_.
         bind_action (task_B enrich companies) (\<lambda>enrichedCompanies.
         bind_action queue_onIdle (\<lambda>_.
         bind_action
           (if with_tenders
            then bind_action (log_info [JStr ''=== TASK C: Fetching tender data ==='']) (\<lambda>_.
                 bind_action (task_C tenders_of lookback enrichedCompanies) (\<lambda>_.
                 queue_onIdle))
            else ret ()) (\<lambda>_.
         bind_action (log_info [JStr ''=== Saving results ==='']) (\<lambda>_.
         bind_action (save_results e enrichedCompanies) (\<lambda>_.
         log_info [JStr ''Successfully scraped '', JNum (int (length enrichedCompanies)),
                   JStr '' companies'']))))))))))
        (\<lambda>err.
         bind_action (log_error [JStr ''Main error: '', JStr (message err)]) (\<lambda>_.
         throw err)))))))"

text \<open>The source calls \<open>enrichCompanyContact\<close> and \<open>scrapeTenderData\<close> inside the tasks.\<close>

definition main :: "env \<Rightarrow> actor_input option \<Rightarrow> unit action" where
  "main e input = main_with e (enrichCompanyContact e) scrapeTenderData input"

section \<open>Notions used to state the properties\<close>

text \<open>
  What the \<open>k\<close>-th request of the run yields for one page: the text of the page, or the
  exception of \<open>axios.get\<close> or of the parser.
\<close>

definition page_text :: "env \<Rightarrow> nat \<Rightarrow> string \<Rightarrow> js_error + string" where
  "page_text e k fullUrl =
     (case http_get e k fullUrl of Inl err \<Rightarrow> Inl err | Inr body \<Rightarrow> load_text e body)"

text \<open>
  The texts of the pages that were fetched and parsed without an exception, in the order
  of the paths, when the first request is the \<open>k\<close>-th of the run.
\<close>

fun fetched_texts :: "env \<Rightarrow> nat \<Rightarrow> string \<Rightarrow> string list \<Rightarrow> string list" where
  "fetched_texts e k websiteUrl [] = []"
| "fetched_texts e k websiteUrl (path # paths) =
     (case page_text e k (websiteUrl @ path) of Inl err \<Rightarrow> [] | Inr t \<Rightarrow> [t])
       @ fetched_texts e (Suc k) websiteUrl paths"

text \<open>
  The matches of a page that reach \<open>contactInfo\<close>: the e-mail matches when the engine
  takes them as the arguments of one call, the phone matches when it takes the e-mail
  matches and the phone matches.
\<close>

definition pushed_emails :: "env \<Rightarrow> string \<Rightarrow> string list" where
  "pushed_emails e t =
     (if length (match_or_empty e emailRegex t) \<le> max_arguments e
      then match_or_empty e emailRegex t else [])"

definition pushed_phones :: "env \<Rightarrow> string \<Rightarrow> string list" where
  "pushed_phones e t =
     (if length (match_or_empty e emailRegex t) \<le> max_arguments e
         \<and> length (match_or_empty e phoneRegex t) \<le> max_arguments e
      then match_or_empty e phoneRegex t else [])"

text \<open>
  The object \<open>contactInfo\<close> as the loop of \<open>scrapContactPages\<close> leaves it after the given
  paths, started in world \<open>w\<close>.
\<close>

definition collected :: "env \<Rightarrow> string \<Rightarrow> string list \<Rightarrow> world \<Rightarrow> contactInfo" where
  "collected e websiteUrl paths w =
     snd (snd (scrape_pages e websiteUrl paths
       (w, \<lparr>ci_emails = [], ci_phones = [], ci_address = [], ci_imprint_url = []\<rparr>)))"

text \<open>A list with every repeated entry removed: an entry stays where nothing equal precedes it.\<close>

definition first_occurrences :: "'a list \<Rightarrow> 'a list" where
  "first_occurrences xs =
     map (\<lambda>i. xs ! i) (filter (\<lambda>i. xs ! i \<notin> set (take i xs)) [0..<length xs])"

text \<open>The object the \<open>catch\<close> block of Task C stores.\<close>

definition no_tenders :: tender_data where
  "no_tenders = \<lparr>open_count = 0, closed_count = 0, tenders = [], last_tender_date = Absent\<rparr>"

section \<open>A sample run\<close>

text \<open>
  A site that answers two of the seven paths with the same page and fails on the others,
  and the matches of the two regular expressions on that page.
\<close>

definition sample_page :: string where
  "sample_page = ''office@omv.com info@omv.com office@omv.com +43 1 40440''"

definition sample_env :: env where
  "sample_env =
     \<lparr>http_get = (\<lambda>k url.
        if url = ''https://www.omv.com/contact'' \<or> url = ''https://www.omv.com/impressum''
        then Inr sample_page else Inl (JsError ''Request failed with status code 404'')),
      load_text = (\<lambda>html. Inr html),
      string_match = (\<lambda>r t.
        if t = sample_page
        then Some (case r of emailRegex \<Rightarrow> [''office@omv.com'', ''info@omv.com'', ''office@omv.com'']
                   | phoneRegex \<Rightarrow> [''+43 1 40440''])
        else None),
      date_now = (\<lambda>k. ''2026-02-24T17:00:00.000Z''),
      queue_create = (\<lambda>c. if 1 \<le> c then Inr () else Inl (JsError ''concurrency'')),
      max_arguments = 100000\<rparr>"

text \<open>
  A site whose every page is the same list of 100001 phone numbers, one more than the
  engine takes as arguments.
\<close>

definition crowded_page :: string where
  "crowded_page = concat (replicate 100001 ''012,'')"

definition crowded_phones :: "string list" where
  "crowded_phones = replicate 100001 ''012''"

definition crowded_env :: env where
  "crowded_env =
     \<lparr>http_get = (\<lambda>k url. Inr crowded_page),
      load_text = (\<lambda>html. Inr html),
      string_match = (\<lambda>r t. case r of emailRegex \<Rightarrow> None | phoneRegex \<Rightarrow> Some crowded_phones),
      date_now = (\<lambda>k. ''2026-02-24T17:00:00.000Z''),
      queue_create = (\<lambda>c. if 1 \<le> c then Inr () else Inl (JsError ''concurrency'')),
      max_arguments = 100000\<rparr>"

definition blank :: company where
  "blank = \<lparr>rank = 0, company_name = [], industry = [], hq_city = [], metric_type = [],
     metric_value = 0, website_url = Absent, emails = Absent, phones = Absent,
     address = Absent, imprint_url = Absent, tender_data = Absent\<rparr>"

definition start_world :: world where
  "start_world = \<lparr>heap = (\<lambda>r. blank), next_ref = 0, requests = [], console = [],
     dataset = [], clock_reads = 0\<rparr>"

text \<open>The world with the three seed objects at the addresses 0, 1 and 2.\<close>

definition seeded_world :: world where
  "seeded_world = snd (getSeedCompaniesAustria start_world)"

text \<open>
  An enrichment that throws for the object at address 1 and a tender lookup that throws
  for the object at address 2.
\<close>

definition failing_enrich :: "ref \<Rightarrow> ref action" where
  "failing_enrich company = (if company = 1 then throw (JsError ''no contact'') else ret company)"

definition failing_tenders :: "ref \<Rightarrow> int \<Rightarrow> tender_data action" where
  "failing_tenders company lookbackMonths =
     (if company = 2 then throw (JsError ''no portal'') else scrapeTenderData company lookbackMonths)"

section \<open>Properties of the contact scraper\<close>

lemma scrape_page_step:
  "try_catch (scrape_page e url p) (\<lambda>err. ret ()) (w, ci) =
     (Inr (),
      (w\<lparr>requests := requests w @ [url @ p]\<rparr>,
       (case page_text e (length (requests w)) (url @ p) of
          Inl err \<Rightarrow> ci
        | Inr t \<Rightarrow>
            if length (match_or_empty e emailRegex t) \<le> max_arguments e
            then if length (match_or_empty e phoneRegex t) \<le> max_arguments e
                 then if str_includes p ''imprint'' \<or> str_includes p ''impressum''
                      then ci\<lparr>ci_emails := ci_emails ci @ match_or_empty e emailRegex t,
                              ci_phones := ci_phones ci @ match_or_empty e phoneRegex t,
                              ci_imprint_url := url @ p\<rparr>
                      else ci\<lparr>ci_emails := ci_emails ci @ match_or_empty e emailRegex t,
                              ci_phones := ci_phones ci @ match_or_empty e phoneRegex t\<rparr>
                 else ci\<lparr>ci_emails := ci_emails ci @ match_or_empty e emailRegex t\<rparr>
            else ci)))"
  by (simp add: try_catch_def scrape_page_def bind_action_def in_world_def update_object_def
      axios_get_def cheerio_text_def push_spread_def ret_def page_text_def Let_def
      split: sum.splits)

lemma for_of_Cons_apply:
  "for_of (x # xs) body s w =
     (case body x s w of (Inl err, w') \<Rightarrow> (Inl err, w') | (Inr s', w') \<Rightarrow> for_of xs body s' w')"
  by (simp add: bind_action_def)

lemma scrape_pages_Cons:
  "scrape_pages e url (p # ps) (w, ci) =
     scrape_pages e url ps (snd (try_catch (scrape_page e url p) (\<lambda>err. ret ()) (w, ci)))"
  unfolding scrape_pages_def by (simp add: bind_action_def scrape_page_step)

lemma scrape_pages_Nil: "scrape_pages e url [] (w, ci) = (Inr (), (w, ci))"
  by (simp add: scrape_pages_def ret_def)

lemma scrape_pages_result:
  "\<exists>ci'. scrape_pages e url paths (w, ci) =
            (Inr (), (w\<lparr>requests := requests w @ map ((@) url) paths\<rparr>, ci'))
      \<and> ci_emails ci' = ci_emails ci @
            concat (map (pushed_emails e) (fetched_texts e (length (requests w)) url paths))
      \<and> ci_phones ci' = ci_phones ci @
            concat (map (pushed_phones e) (fetched_texts e (length (requests w)) url paths))
      \<and> ci_address ci' = ci_address ci"
proof (induction paths arbitrary: ci w)
  case Nil
  show ?case by (simp add: scrape_pages_Nil)
next
  case (Cons p ps)
  let ?w1 = "w\<lparr>requests := requests w @ [url @ p]\<rparr>"
  let ?page = "case page_text e (length (requests w)) (url @ p) of Inl err \<Rightarrow> [] | Inr t \<Rightarrow> [t]"
  obtain ci1 where step: "snd (try_catch (scrape_page e url p) (\<lambda>err. ret ()) (w, ci)) = (?w1, ci1)"
    and em: "ci_emails ci1 = ci_emails ci @ concat (map (pushed_emails e) ?page)"
    and ph: "ci_phones ci1 = ci_phones ci @ concat (map (pushed_phones e) ?page)"
    and ad: "ci_address ci1 = ci_address ci"
    by (auto simp: scrape_page_step pushed_emails_def pushed_phones_def split: sum.splits)
  from Cons.IH [of ?w1 ci1] obtain ci' where
    rest: "scrape_pages e url ps (?w1, ci1) =
             (Inr (), (?w1\<lparr>requests := requests ?w1 @ map ((@) url) ps\<rparr>, ci'))"
    and em': "ci_emails ci' = ci_emails ci1 @
            concat (map (pushed_emails e) (fetched_texts e (length (requests ?w1)) url ps))"
    and ph': "ci_phones ci' = ci_phones ci1 @
            concat (map (pushed_phones e) (fetched_texts e (length (requests ?w1)) url ps))"
    and ad': "ci_address ci' = ci_address ci1"
    by blast
  have "scrape_pages e url (p # ps) (w, ci) =
          (Inr (), (w\<lparr>requests := requests w @ map ((@) url) (p # ps)\<rparr>, ci'))"
    by (simp add: scrape_pages_Cons step rest)
  moreover have "ci_emails ci' = ci_emails ci @
      concat (map (pushed_emails e) (fetched_texts e (length (requests w)) url (p # ps)))"
    by (simp add: em' em)
  moreover have "ci_phones ci' = ci_phones ci @
      concat (map (pushed_phones e) (fetched_texts e (length (requests w)) url (p # ps)))"
    by (simp add: ph' ph)
  moreover have "ci_address ci' = ci_address ci"
    by (simp add: ad' ad)
  ultimately show ?case by blast
qed

lemma collected_lists:
  "ci_emails (collected e url paths w) =
     concat (map (pushed_emails e) (fetched_texts e (length (requests w)) url paths))
   \<and> ci_phones (collected e url paths w) =
     concat (map (pushed_phones e) (fetched_texts e (length (requests w)) url paths))"
  using scrape_pages_result [of e url paths w
      "\<lparr>ci_emails = [], ci_phones = [], ci_address = [], ci_imprint_url = []\<rparr>"]
  by (auto simp: collected_def)

lemma fetched_texts_append:
  "fetched_texts e k url (xs @ ys) =
     fetched_texts e k url xs @ fetched_texts e (k + length xs) url ys"
  by (induction xs arbitrary: k) simp_all

lemma fetched_texts_take:
  "set (fetched_texts e k url (take n paths)) \<subseteq> set (fetched_texts e k url paths)"
proof -
  have "fetched_texts e k url (take n paths @ drop n paths)
      = fetched_texts e k url (take n paths)
        @ fetched_texts e (k + length (take n paths)) url (drop n paths)"
    by (rule fetched_texts_append)
  then show ?thesis by (simp del: length_take)
qed

lemma new_Set_snoc: "new_Set (xs @ [x]) = set_add (new_Set xs) x"
  by (simp add: new_Set_def)

lemma set_new_Set: "set (new_Set xs) = set xs"
  by (induction xs rule: rev_induct) (auto simp: new_Set_snoc set_add_def new_Set_def)

lemma distinct_new_Set: "distinct (new_Set xs)"
  by (induction xs rule: rev_induct) (auto simp: new_Set_snoc set_add_def set_new_Set new_Set_def)

lemma first_occurrences_snoc:
  "first_occurrences (xs @ [x]) = (if x \<in> set xs then first_occurrences xs else first_occurrences xs @ [x])"
proof -
  have "filter (\<lambda>i. (xs @ [x]) ! i \<notin> set (take i (xs @ [x]))) [0..<length xs]
      = filter (\<lambda>i. xs ! i \<notin> set (take i xs)) [0..<length xs]"
    by (rule filter_cong) (auto simp: nth_append)
  moreover have "map (\<lambda>i. (xs @ [x]) ! i) (filter (\<lambda>i. xs ! i \<notin> set (take i xs)) [0..<length xs])
      = map (\<lambda>i. xs ! i) (filter (\<lambda>i. xs ! i \<notin> set (take i xs)) [0..<length xs])"
    by (rule map_cong) (auto simp: nth_append)
  ultimately show ?thesis
    by (simp add: first_occurrences_def)
qed

lemma new_Set_first_occurrences: "new_Set xs = first_occurrences xs"
proof (induction xs rule: rev_induct)
  case Nil
  show ?case by (simp add: new_Set_def first_occurrences_def)
next
  case (snoc x xs)
  have "set (first_occurrences xs) = set xs"
    using set_new_Set [of xs] snoc by simp
  then show ?case
    by (simp add: new_Set_snoc first_occurrences_snoc set_add_def snoc)
qed


lemma fetched_texts_member:
  "i < length paths \<Longrightarrow> page_text e (k + i) (url @ paths ! i) = Inr text
     \<Longrightarrow> text \<in> set (fetched_texts e k url paths)"
proof (induction paths arbitrary: i k)
  case Nil
  then show ?case by simp
next
  case (Cons p ps)
  show ?case
  proof (cases i)
    case 0
    with Cons.prems show ?thesis by simp
  next
    case (Suc j)
    with Cons.prems have "j < length ps" and "page_text e (Suc k + j) (url @ ps ! j) = Inr text"
      by simp_all
    then have "text \<in> set (fetched_texts e (Suc k) url ps)"
      by (rule Cons.IH)
    then show ?thesis by simp
  qed
qed

lemma scrapContactPages_result:
  "\<exists>ci. scrapContactPages e url w =
          (Inr ci, w\<lparr>requests := requests w @ map ((@) url) pagesToScrape\<rparr>)
      \<and> ci_emails ci = new_Set (concat (map (pushed_emails e)
            (fetched_texts e (length (requests w)) url pagesToScrape)))
      \<and> ci_phones ci = new_Set (concat (map (pushed_phones e)
            (fetched_texts e (length (requests w)) url pagesToScrape)))
      \<and> ci_address ci = []"
proof -
  let ?ci0 = "\<lparr>ci_emails = [], ci_phones = [], ci_address = [], ci_imprint_url = []\<rparr>"
  from scrape_pages_result [of e url pagesToScrape w ?ci0] obtain ci1 where
    run: "scrape_pages e url pagesToScrape (w, ?ci0) =
            (Inr (), (w\<lparr>requests := requests w @ map ((@) url) pagesToScrape\<rparr>, ci1))"
    and em: "ci_emails ci1 = concat (map (pushed_emails e)
            (fetched_texts e (length (requests w)) url pagesToScrape))"
    and ph: "ci_phones ci1 = concat (map (pushed_phones e)
            (fetched_texts e (length (requests w)) url pagesToScrape))"
    and ad: "ci_address ci1 = []"
    by auto
  show ?thesis
    by (simp add: scrapContactPages_def bind_action_def with_object_def run ret_def em ph ad)
qed

lemma distinct_count_list: "distinct xs \<Longrightarrow> count_list xs u \<le> 1"
  by (induction xs) (auto simp: count_list_0_iff)

text \<open>
  Claim C1. Whatever the requests, the parser and the engine do, \<open>scrapContactPages\<close>
  returns a \<open>contactInfo\<close> object and does not throw; every candidate path is requested;
  what the loop has collected after any number of paths is in the result, whatever
  happens on the later paths; and the matches of a page that was fetched and parsed are
  in the result when they were pushed, also when other pages failed.
\<close>

theorem scrapContactPages_tolerates_failure:
  "\<exists>ci w'. scrapContactPages e url w = (Inr ci, w')
     \<and> (\<forall>path \<in> set pagesToScrape. url @ path \<in> set (drop (length (requests w)) (requests w')))
     \<and> (\<forall>k. set (ci_emails (collected e url (take k pagesToScrape) w)) \<subseteq> set (ci_emails ci)
            \<and> set (ci_phones (collected e url (take k pagesToScrape) w)) \<subseteq> set (ci_phones ci))
     \<and> (\<forall>i t. i < length pagesToScrape
           \<and> page_text e (length (requests w) + i) (url @ pagesToScrape ! i) = Inr t
          \<longrightarrow> set (pushed_emails e t) \<subseteq> set (ci_emails ci)
            \<and> set (pushed_phones e t) \<subseteq> set (ci_phones ci))"
proof -
  let ?texts = "fetched_texts e (length (requests w)) url pagesToScrape"
  from scrapContactPages_result [of e url w] obtain ci where
    run: "scrapContactPages e url w =
            (Inr ci, w\<lparr>requests := requests w @ map ((@) url) pagesToScrape\<rparr>)"
    and em: "ci_emails ci = new_Set (concat (map (pushed_emails e) ?texts))"
    and ph: "ci_phones ci = new_Set (concat (map (pushed_phones e) ?texts))"
    by blast
  have kept: "set (pushed_emails e t) \<subseteq> set (ci_emails ci)
            \<and> set (pushed_phones e t) \<subseteq> set (ci_phones ci)"
    if "t \<in> set ?texts" for t
    using that by (auto simp: em ph set_new_Set)
  have pages: "set (pushed_emails e t) \<subseteq> set (ci_emails ci)
            \<and> set (pushed_phones e t) \<subseteq> set (ci_phones ci)"
    if "i < length pagesToScrape"
      and "page_text e (length (requests w) + i) (url @ pagesToScrape ! i) = Inr t"
    for i t
  proof -
    from that have "t \<in> set ?texts"
      by (rule fetched_texts_member)
    then show ?thesis by (rule kept)
  qed
  have earlier: "set (ci_emails (collected e url (take k pagesToScrape) w)) \<subseteq> set (ci_emails ci)
            \<and> set (ci_phones (collected e url (take k pagesToScrape) w)) \<subseteq> set (ci_phones ci)"
    for k
    using fetched_texts_take [of e "length (requests w)" url k pagesToScrape] kept
    by (fastforce simp: collected_lists)
  have "\<forall>path \<in> set pagesToScrape.
          url @ path \<in> set (drop (length (requests w))
            (requests (w\<lparr>requests := requests w @ map ((@) url) pagesToScrape\<rparr>)))"
    by simp
  with run pages earlier show ?thesis by blast
qed

text \<open>
  Claim C2. One call of \<open>scrapContactPages\<close> adds to the requests of the run exactly the
  website URL followed by each of the seven paths, in the order of the source.
\<close>

theorem scrapContactPages_requests:
  "requests (snd (scrapContactPages e url w)) = requests w @
     [url @ ''/'', url @ ''/contact'', url @ ''/kontakt'', url @ ''/impressum'',
      url @ ''/imprint'', url @ ''/about'', url @ ''/ubersicht'']"
  using scrapContactPages_result [of e url w] by (auto simp: pagesToScrape_def)

text \<open>
  Claim C3, amended. The returned \<open>emails\<close> and \<open>phones\<close> have no duplicates, and each is
  the list of the matches that were pushed, page after page, reduced to the first
  occurrence of every string. The matches of a page are pushed when the page was fetched
  and parsed and the engine takes them as the arguments of one call of \<open>push\<close>: the
  e-mail matches when they are at most \<open>max_arguments\<close>, the phone matches when the e-mail
  matches and the phone matches are.
\<close>

theorem scrapContactPages_deduplicates:
  "\<exists>ci w'. scrapContactPages e url w = (Inr ci, w')
     \<and> distinct (ci_emails ci) \<and> distinct (ci_phones ci)
     \<and> ci_emails ci = first_occurrences (concat (map (pushed_emails e)
           (fetched_texts e (length (requests w)) url pagesToScrape)))
     \<and> ci_phones ci = first_occurrences (concat (map (pushed_phones e)
           (fetched_texts e (length (requests w)) url pagesToScrape)))"
  using scrapContactPages_result [of e url w]
  by (auto simp: distinct_new_Set new_Set_first_occurrences [symmetric])

text \<open>
  Claim C6. One call of \<open>scrapContactPages\<close> makes as many requests as there are paths,
  and no URL is requested twice, whatever the outcome of the requests.
\<close>

theorem scrapContactPages_no_retry:
  "length (drop (length (requests w)) (requests (snd (scrapContactPages e url w)))) = length pagesToScrape
   \<and> count_list (drop (length (requests w)) (requests (snd (scrapContactPages e url w)))) u \<le> 1"
proof -
  have "distinct (map ((@) url) pagesToScrape)"
    by (simp add: pagesToScrape_def)
  then have "count_list (map ((@) url) pagesToScrape) u \<le> 1"
    by (rule distinct_count_list)
  then show ?thesis
    using scrapContactPages_result [of e url w] by auto
qed




theorem scrapContactPages_deduplicates_witness:
  "\<exists>ci w'. scrapContactPages sample_env ''https://www.omv.com'' start_world = (Inr ci, w')
     \<and> ci_emails ci = [''office@omv.com'', ''info@omv.com'']
     \<and> ci_phones ci = [''+43 1 40440'']"
proof -
  have texts: "fetched_texts sample_env (length (requests start_world)) ''https://www.omv.com''
      pagesToScrape = [sample_page, sample_page]"
    by (simp add: pagesToScrape_def page_text_def sample_env_def start_world_def)
  have found: "pushed_emails sample_env sample_page
        = [''office@omv.com'', ''info@omv.com'', ''office@omv.com'']"
    "pushed_phones sample_env sample_page = [''+43 1 40440'']"
    by (simp_all add: pushed_emails_def pushed_phones_def match_or_empty_def sample_env_def)
  have first: "first_occurrences [''office@omv.com'', ''info@omv.com'', ''office@omv.com'',
          ''office@omv.com'', ''info@omv.com'', ''office@omv.com'']
        = [''office@omv.com'', ''info@omv.com'']"
    "first_occurrences [''+43 1 40440'', ''+43 1 40440''] = [''+43 1 40440'']"
    by (simp_all add: new_Set_first_occurrences [symmetric] new_Set_def set_add_def)
  from scrapContactPages_deduplicates [of sample_env "''https://www.omv.com''" start_world]
  obtain ci w' where run: "scrapContactPages sample_env ''https://www.omv.com'' start_world = (Inr ci, w')"
    and em: "ci_emails ci = first_occurrences (concat (map (pushed_emails sample_env)
           (fetched_texts sample_env (length (requests start_world)) ''https://www.omv.com'' pagesToScrape)))"
    and ph: "ci_phones ci = first_occurrences (concat (map (pushed_phones sample_env)
           (fetched_texts sample_env (length (requests start_world)) ''https://www.omv.com'' pagesToScrape)))"
    by blast
  from em have "ci_emails ci = [''office@omv.com'', ''info@omv.com'']"
    by (simp add: texts found first)
  moreover from ph have "ci_phones ci = [''+43 1 40440'']"
    by (simp add: texts found first)
  ultimately show ?thesis
    using run by blast
qed

lemma crowded_phones_length: "length crowded_phones = 100001"
  by (simp add: crowded_phones_def)

lemma crowded_phones_member: "''012'' \<in> set crowded_phones"
  by (simp add: crowded_phones_def)

lemma crowded_page_step:
  "snd (try_catch (scrape_page crowded_env url p) (\<lambda>err. ret ()) (w, ci))
     = (w\<lparr>requests := requests w @ [url @ p]\<rparr>, ci)"
  if "ci_emails ci = []" for ci :: contactInfo
  using that
  by (simp add: scrape_page_step page_text_def crowded_env_def match_or_empty_def
      crowded_phones_length)

text \<open>
  Claim C3 as stated fails on a page with more phone numbers than the engine takes as
  arguments: every page of the site is fetched and parsed and has the match \<open>012\<close>, the
  calls of \<open>push\<close> throw inside the \<open>try\<close>, and the returned object has no phone and no
  imprint URL.
\<close>

theorem scrapContactPages_drops_crowded_page:
  "fetched_texts crowded_env (length (requests start_world)) ''http://site.test'' pagesToScrape
     = [crowded_page, crowded_page, crowded_page, crowded_page, crowded_page, crowded_page,
        crowded_page]
   \<and> ''012'' \<in> set (first_occurrences (concat (map (match_or_empty crowded_env phoneRegex)
         (fetched_texts crowded_env (length (requests start_world)) ''http://site.test''
            pagesToScrape))))
   \<and> fst (scrapContactPages crowded_env ''http://site.test'' start_world)
       = Inr \<lparr>ci_emails = [], ci_phones = [], ci_address = [], ci_imprint_url = []\<rparr>"
proof -
  have texts: "fetched_texts crowded_env (length (requests start_world)) ''http://site.test''
      pagesToScrape
     = [crowded_page, crowded_page, crowded_page, crowded_page, crowded_page, crowded_page,
        crowded_page]"
    by (simp add: pagesToScrape_def page_text_def crowded_env_def)
  have "match_or_empty crowded_env phoneRegex crowded_page = crowded_phones"
    by (simp add: match_or_empty_def crowded_env_def)
  then have claimed: "''012'' \<in> set (first_occurrences (concat (map (match_or_empty crowded_env phoneRegex)
         (fetched_texts crowded_env (length (requests start_world)) ''http://site.test''
            pagesToScrape))))"
    by (simp add: texts new_Set_first_occurrences [symmetric] set_new_Set crowded_phones_member)
  have "snd (snd (scrape_pages crowded_env ''http://site.test'' pagesToScrape
          (start_world, \<lparr>ci_emails = [], ci_phones = [], ci_address = [], ci_imprint_url = []\<rparr>)))
      = \<lparr>ci_emails = [], ci_phones = [], ci_address = [], ci_imprint_url = []\<rparr>"
    by (simp add: pagesToScrape_def scrape_pages_Cons crowded_page_step scrape_pages_Nil)
  moreover have "\<exists>ci'. scrape_pages crowded_env ''http://site.test'' pagesToScrape
          (start_world, \<lparr>ci_emails = [], ci_phones = [], ci_address = [], ci_imprint_url = []\<rparr>)
       = (Inr (), (start_world\<lparr>requests := requests start_world
             @ map ((@) ''http://site.test'') pagesToScrape\<rparr>, ci'))"
    using scrape_pages_result [of crowded_env "''http://site.test''" pagesToScrape start_world
        "\<lparr>ci_emails = [], ci_phones = [], ci_address = [], ci_imprint_url = []\<rparr>"]
    by blast
  ultimately have "fst (scrapContactPages crowded_env ''http://site.test'' start_world)
       = Inr \<lparr>ci_emails = [], ci_phones = [], ci_address = [], ci_imprint_url = []\<rparr>"
    by (auto simp: scrapContactPages_def bind_action_def with_object_def ret_def new_Set_def)
  with texts claimed show ?thesis by blast
qed

theorem scrapContactPages_tolerates_failure_witness:
  "\<exists>ci w'. scrapContactPages sample_env ''https://www.omv.com'' start_world = (Inr ci, w')
     \<and> ''https://www.omv.com/ubersicht'' \<in> set (requests w')
     \<and> ''info@omv.com'' \<in> set (ci_emails ci)"
proof -
  from scrapContactPages_tolerates_failure [of sample_env "''https://www.omv.com''" start_world]
  obtain ci w' where run: "scrapContactPages sample_env ''https://www.omv.com'' start_world = (Inr ci, w')"
    and tried: "\<forall>path \<in> set pagesToScrape.
        ''https://www.omv.com'' @ path \<in> set (drop (length (requests start_world)) (requests w'))"
    and kept: "\<forall>i t. i < length pagesToScrape
           \<and> page_text sample_env (length (requests start_world) + i)
                (''https://www.omv.com'' @ pagesToScrape ! i) = Inr t
          \<longrightarrow> set (pushed_emails sample_env t) \<subseteq> set (ci_emails ci)
            \<and> set (pushed_phones sample_env t) \<subseteq> set (ci_phones ci)"
    by blast
  have "''/ubersicht'' \<in> set pagesToScrape"
    by (simp add: pagesToScrape_def)
  with tried have "''https://www.omv.com'' @ ''/ubersicht''
      \<in> set (drop (length (requests start_world)) (requests w'))"
    by blast
  then have a: "''https://www.omv.com/ubersicht'' \<in> set (requests w')"
    by (simp add: start_world_def)
  have "(1::nat) < length pagesToScrape
      \<and> page_text sample_env (length (requests start_world) + 1)
           (''https://www.omv.com'' @ pagesToScrape ! 1) = Inr sample_page"
    by (simp add: pagesToScrape_def page_text_def sample_env_def start_world_def)
  with kept have "set (pushed_emails sample_env sample_page) \<subseteq> set (ci_emails ci)"
    by blast
  then have b: "''info@omv.com'' \<in> set (ci_emails ci)"
    by (simp add: pushed_emails_def match_or_empty_def sample_env_def)
  from run a b show ?thesis by blast
qed

section \<open>Properties of the stubs, of the seed list and of the input\<close>

text \<open>
  Claim C4. \<open>resolveWebsite\<close> returns the empty string and changes nothing, for every
  company name; \<open>scrapeTenderData\<close> returns the same object for every company and every
  number of months: no tenders, counts zero, \<open>last_tender_date\<close> \<open>null\<close>.
\<close>

theorem stubs_return_constants:
  "resolveWebsite companyName w = (Inr [], w)
   \<and> fst (scrapeTenderData company lookbackMonths w) =
       Inr \<lparr>open_count = 0, closed_count = 0, tenders = [], last_tender_date = Null\<rparr>"
  by (simp add: resolveWebsite_def scrapeTenderData_def try_catch_def ret_def bind_action_def
      read_object_def log_info_def)

lemma getSeedCompaniesAustria_result:
  "getSeedCompaniesAustria w =
     (Inr [next_ref w, Suc (next_ref w), Suc (Suc (next_ref w))],
      w\<lparr>heap := (heap w)(next_ref w := seed_companies ! 0, Suc (next_ref w) := seed_companies ! 1,
                           Suc (Suc (next_ref w)) := seed_companies ! 2),
        next_ref := Suc (Suc (Suc (next_ref w)))\<rparr>)"
  by (simp add: getSeedCompaniesAustria_def seed_companies_def bind_action_def new_object_def ret_def)

lemma slice_three:
  "slice [a, b, c] 0 limit = take (nat (if 0 \<le> limit then min limit 3 else max (3 + limit) 0)) [a, b, c]"
  by (simp add: slice_def Let_def min_def max_def)

lemma scrapeTopCompanies_result:
  "scrapeTopCompanies strategy limit w =
     (Inr (take (nat (if 0 \<le> limit then min limit 3 else max (3 + limit) 0))
             [next_ref w, Suc (next_ref w), Suc (Suc (next_ref w))]),
      w\<lparr>heap := (heap w)(next_ref w := seed_companies ! 0, Suc (next_ref w) := seed_companies ! 1,
                           Suc (Suc (next_ref w)) := seed_companies ! 2),
        next_ref := Suc (Suc (Suc (next_ref w))),
        console := console w @ [Info [JStr ''Scraping top '', JNum limit, JStr '' companies by '',
                               JStr strategy]]\<rparr>)"
  by (simp add: scrapeTopCompanies_def try_catch_def bind_action_def log_info_def
      getSeedCompaniesAustria_result ret_def slice_three)


text \<open>
  Claim C5, amended. \<open>scrapeTopCompanies\<close> does not throw and returns a prefix of the seed
  list, in seed order: its first \<open>min limit 3\<close> entries when \<open>limit\<close> is not negative, and
  its first \<open>max (3 + limit) 0\<close> entries when \<open>limit\<close> is negative, since \<open>slice\<close> counts a
  negative end from the end of the array. The objects returned and the store do not
  depend on the strategy.
\<close>

theorem scrapeTopCompanies_seed_prefix:
  "\<exists>rs w'. scrapeTopCompanies strategy limit w = (Inr rs, w')
     \<and> map (heap w') rs =
         take (nat (if 0 \<le> limit then min limit 3 else max (3 + limit) 0)) seed_companies
     \<and> fst (scrapeTopCompanies strategy' limit w) = Inr rs
     \<and> heap (snd (scrapeTopCompanies strategy' limit w)) = heap w'"
proof -
  let ?k = "nat (if 0 \<le> limit then min limit 3 else max (3 + limit) 0)"
  let ?h = "(heap w)(next_ref w := seed_companies ! 0, Suc (next_ref w) := seed_companies ! 1,
                     Suc (Suc (next_ref w)) := seed_companies ! 2)"
  have "map ?h [next_ref w, Suc (next_ref w), Suc (Suc (next_ref w))] = seed_companies"
    by (simp add: seed_companies_def)
  then have "map ?h (take ?k [next_ref w, Suc (next_ref w), Suc (Suc (next_ref w))])
      = take ?k seed_companies"
    by (simp only: take_map [symmetric])
  then show ?thesis
    by (simp add: scrapeTopCompanies_result)
qed

theorem scrapeTopCompanies_seed_prefix_witness:
  "\<exists>rs w'. scrapeTopCompanies ''employees'' 2 start_world = (Inr rs, w')
     \<and> map (heap w') rs = [seed_companies ! 0, seed_companies ! 1]"
  using scrapeTopCompanies_seed_prefix [of "''employees''" 2 start_world "''revenue''"]
  by (auto simp: seed_companies_def)

text \<open>
  Claim C5 as stated fails for a negative limit: with \<open>limit = - 1\<close> the function returns
  the first two seed companies, which are not the first \<open>min (- 1) 3\<close> entries.
\<close>

theorem scrapeTopCompanies_negative_limit:
  "fst (scrapeTopCompanies ''revenue'' (- 1) start_world) = Inr [0, 1]
   \<and> map (heap (snd (scrapeTopCompanies ''revenue'' (- 1) start_world))) [0, 1]
       = [seed_companies ! 0, seed_companies ! 1]
   \<and> [seed_companies ! 0, seed_companies ! 1] \<noteq> take (nat (min (- 1) 3)) seed_companies"
  by (simp add: scrapeTopCompanies_result start_world_def)

lemma scrapeTenderData_ignores_lookback:
  "scrapeTenderData company lookbackMonths = scrapeTenderData company 0"
  by (simp add: scrapeTenderData_def)

lemma task_C_ignores_lookback:
  "task_C scrapeTenderData lookback = task_C scrapeTenderData 0"
  unfolding task_C_def tender_task_def by (subst scrapeTenderData_ignores_lookback) (rule refl)

text \<open>
  Claim C10. Two runs of \<open>main\<close> in the same world whose inputs differ only in
  \<open>extract_emails\<close>, \<open>extract_phones\<close> and \<open>tender_lookback_months\<close> have the same outcome
  and leave the same world, so the same dataset; an input with these three properties
  alone does what no input does.
\<close>

theorem main_ignores_three_inputs:
  "main e (Some (given\<lparr>extract_emails := emails_flag, extract_phones := phones_flag,
                        tender_lookback_months := months\<rparr>)) w
   = main e (Some given) w
   \<and> main e (Some (no_input\<lparr>extract_emails := emails_flag, extract_phones := phones_flag,
                        tender_lookback_months := months\<rparr>)) w
   = main e None w"
proof -
  define pass where "pass = task_C scrapeTenderData 0"
  have "task_C scrapeTenderData lookback = pass" for lookback
    unfolding pass_def by (rule task_C_ignores_lookback)
  then show ?thesis
    by (simp add: main_def main_with_def Let_def no_input_def cong: if_cong)
qed

section \<open>Properties of the enrichment of one company\<close>

lemma enrich_falsy:
  assumes "\<not> truthy (website_url (heap w company))"
  shows "enrichCompanyContact e company w =
     (Inr (next_ref w),
      w\<lparr>heap := (heap w)(next_ref w := (heap w company)\<lparr>website_url := Present []\<rparr>),
        next_ref := Suc (next_ref w)\<rparr>)"
  using assms
  by (simp add: enrichCompanyContact_def spread_def bind_action_def read_object_def new_object_def
      resolveWebsite_def try_catch_def ret_def write_object_def)

lemma enrich_truthy:
  assumes "website_url (heap w company) = Present url" and "url \<noteq> []"
  shows "\<exists>ci :: contactInfo. enrichCompanyContact e company w =
     (Inr (next_ref w),
      w\<lparr>heap := (heap w)(next_ref w := (heap w company)
                \<lparr>emails := Present (ci_emails ci), phones := Present (ci_phones ci),
                 address := Present (or_else (ci_address ci) []),
                 imprint_url := Present (or_else (ci_imprint_url ci) [])\<rparr>),
        next_ref := Suc (next_ref w),
        requests := requests w @ map ((@) url) pagesToScrape\<rparr>)"
proof -
  let ?w1 = "w\<lparr>heap := (heap w)(next_ref w := heap w company), next_ref := Suc (next_ref w)\<rparr>"
  from scrapContactPages_result [of e url ?w1] obtain ci where
    run: "scrapContactPages e url ?w1 = (Inr ci, ?w1\<lparr>requests := requests ?w1 @ map ((@) url) pagesToScrape\<rparr>)"
    by blast
  have "enrichCompanyContact e company w =
     (Inr (next_ref w),
      w\<lparr>heap := (heap w)(next_ref w := (heap w company)
                \<lparr>emails := Present (ci_emails ci), phones := Present (ci_phones ci),
                 address := Present (or_else (ci_address ci) []),
                 imprint_url := Present (or_else (ci_imprint_url ci) [])\<rparr>),
        next_ref := Suc (next_ref w),
        requests := requests w @ map ((@) url) pagesToScrape\<rparr>)"
    using assms
    by (simp add: enrichCompanyContact_def spread_def bind_action_def read_object_def new_object_def
        ret_def write_object_def run)
  then show ?thesis ..
qed

text \<open>
  Claim C9. For a company object of the store, \<open>enrichCompanyContact\<close> returns another
  object; no object that existed before the call is changed, the input among them; the
  result has the input's \<open>rank\<close>, \<open>company_name\<close>, \<open>industry\<close>, \<open>hq_city\<close>, \<open>metric_type\<close>,
  \<open>metric_value\<close> and \<open>tender_data\<close>; a truthy \<open>website_url\<close> is kept and the four contact
  properties are filled; a missing or falsy \<open>website_url\<close> becomes the empty string and the
  four contact properties are those of the input.
\<close>

theorem enrichCompanyContact_frame:
  assumes "company < next_ref w"
  shows "\<exists>enriched w'. enrichCompanyContact e company w = (Inr enriched, w')
     \<and> enriched \<noteq> company
     \<and> (\<forall>r. r < next_ref w \<longrightarrow> heap w' r = heap w r)
     \<and> rank (heap w' enriched) = rank (heap w company)
     \<and> company_name (heap w' enriched) = company_name (heap w company)
     \<and> industry (heap w' enriched) = industry (heap w company)
     \<and> hq_city (heap w' enriched) = hq_city (heap w company)
     \<and> metric_type (heap w' enriched) = metric_type (heap w company)
     \<and> metric_value (heap w' enriched) = metric_value (heap w company)
     \<and> tender_data (heap w' enriched) = tender_data (heap w company)
     \<and> (if truthy (website_url (heap w company))
         then website_url (heap w' enriched) = website_url (heap w company)
           \<and> (\<exists>es ps a i. emails (heap w' enriched) = Present es
                 \<and> phones (heap w' enriched) = Present ps
                 \<and> address (heap w' enriched) = Present a
                 \<and> imprint_url (heap w' enriched) = Present i)
         else website_url (heap w' enriched) = Present []
           \<and> emails (heap w' enriched) = emails (heap w company)
           \<and> phones (heap w' enriched) = phones (heap w company)
           \<and> address (heap w' enriched) = address (heap w company)
           \<and> imprint_url (heap w' enriched) = imprint_url (heap w company))"
proof (cases "truthy (website_url (heap w company))")
  case False
  with assms show ?thesis
    by (simp add: enrich_falsy)
next
  case True
  then obtain url where "website_url (heap w company) = Present url" and "url \<noteq> []"
    by (cases "website_url (heap w company)") auto
  from enrich_truthy [OF this, of e] obtain ci :: contactInfo where
    "enrichCompanyContact e company w =
     (Inr (next_ref w),
      w\<lparr>heap := (heap w)(next_ref w := (heap w company)
                \<lparr>emails := Present (ci_emails ci), phones := Present (ci_phones ci),
                 address := Present (or_else (ci_address ci) []),
                 imprint_url := Present (or_else (ci_imprint_url ci) [])\<rparr>),
        next_ref := Suc (next_ref w),
        requests := requests w @ map ((@) url) pagesToScrape\<rparr>)"
    by blast
  with assms True show ?thesis
    by simp
qed

theorem enrichCompanyContact_frame_witness:
  "\<exists>enriched w'. enrichCompanyContact sample_env 0 seeded_world = (Inr enriched, w')
     \<and> enriched \<noteq> 0
     \<and> heap w' 0 = seed_companies ! 0
     \<and> company_name (heap w' enriched) = ''OMV Aktiengesellschaft''
     \<and> website_url (heap w' enriched) = Present ''https://www.omv.com''"
proof -
  have seeded: "next_ref seeded_world = 3" "heap seeded_world 0 = seed_companies ! 0"
    by (simp_all add: seeded_world_def getSeedCompaniesAustria_result start_world_def)
  then have "0 < next_ref seeded_world"
    by simp
  from enrichCompanyContact_frame [OF this, of sample_env] seeded show ?thesis
    by (auto simp: seed_companies_def)
qed


section \<open>Properties of the two passes\<close>

lemma for_of_append:
  "for_of (xs @ ys) body s w =
     (case for_of xs body s w of (Inl err, w') \<Rightarrow> (Inl err, w') | (Inr s', w') \<Rightarrow> for_of ys body s' w')"
proof (induction xs arbitrary: s w)
  case Nil
  show ?case by (simp add: ret_def)
next
  case (Cons x xs)
  show ?case
    by (simp add: bind_action_def Cons.IH split: prod.splits sum.splits)
qed

lemma contact_task_result:
  "contact_task enrich company acc w =
     (case enrich company w of
        (Inl err, w1) \<Rightarrow>
          (Inr acc, w1\<lparr>console := console w1 @
             [Error [JStr ''Error enriching '', JStr (company_name (heap w1 company)),
                     JStr '': '', JStr (message err)]]\<rparr>)
      | (Inr enriched, w1) \<Rightarrow>
          (Inr (acc @ [enriched]), w1\<lparr>console := console w1 @
             [Info [JStr ''Enriched: '', JStr (company_name (heap w1 enriched))]]\<rparr>))"
  by (simp add: contact_task_def try_catch_def bind_action_def read_object_def log_info_def
      log_error_def ret_def Let_def split: prod.splits sum.splits)

lemma task_B_accumulates:
  "\<exists>rs w'. \<forall>acc. for_of cs (\<lambda>company enrichedCompanies.
       queue_add (contact_task enrich company enrichedCompanies)) acc w = (Inr (acc @ rs), w')"
proof (induction cs arbitrary: w)
  case Nil
  show ?case by (simp add: ret_def)
next
  case (Cons c cs)
  let ?loop = "for_of cs (\<lambda>company enrichedCompanies.
       queue_add (contact_task enrich company enrichedCompanies))"
  show ?case
  proof (cases "enrich c w")
    case (Pair outcome w1)
    show ?thesis
    proof (cases outcome)
      case (Inl err)
      let ?w2 = "w1\<lparr>console := console w1 @
             [Error [JStr ''Error enriching '', JStr (company_name (heap w1 c)),
                     JStr '': '', JStr (message err)]]\<rparr>"
      from Cons.IH [of ?w2] obtain rs w' where "\<forall>acc. ?loop acc ?w2 = (Inr (acc @ rs), w')"
        by blast
      then have "\<forall>acc. for_of (c # cs) (\<lambda>company enrichedCompanies.
          queue_add (contact_task enrich company enrichedCompanies)) acc w = (Inr (acc @ rs), w')"
        by (simp add: bind_action_def queue_add_def contact_task_result Pair Inl)
      then show ?thesis by blast
    next
      case (Inr r)
      let ?w2 = "w1\<lparr>console := console w1 @
             [Info [JStr ''Enriched: '', JStr (company_name (heap w1 r))]]\<rparr>"
      from Cons.IH [of ?w2] obtain rs w' where "\<forall>acc. ?loop acc ?w2 = (Inr (acc @ rs), w')"
        by blast
      then have "\<forall>acc. for_of (c # cs) (\<lambda>company enrichedCompanies.
          queue_add (contact_task enrich company enrichedCompanies)) acc w = (Inr (acc @ r # rs), w')"
        by (simp add: bind_action_def queue_add_def contact_task_result Pair Inr)
      then show ?thesis by blast
    qed
  qed
qed

lemma task_B_from:
  assumes "task_B enrich cs w = (Inr rs, w')"
  shows "for_of cs (\<lambda>company enrichedCompanies.
       queue_add (contact_task enrich company enrichedCompanies)) acc w = (Inr (acc @ rs), w')"
proof -
  from task_B_accumulates [of cs enrich w] obtain rs0 w0 where
    all: "\<forall>acc. for_of cs (\<lambda>company enrichedCompanies.
       queue_add (contact_task enrich company enrichedCompanies)) acc w = (Inr (acc @ rs0), w0)"
    by blast
  from all have "task_B enrich cs w = (Inr rs0, w0)"
    by (simp add: task_B_def)
  with assms have "rs0 = rs" and "w0 = w'"
    by simp_all
  with all show ?thesis by simp
qed

lemma task_B_returns: "\<exists>rs w'. task_B enrich cs w = (Inr rs, w')"
  using task_B_accumulates [of cs enrich w] by (auto simp: task_B_def)

lemma task_B_skips_failure:
  assumes before: "task_B enrich before w = (Inr rs1, w1)"
    and fails: "enrich company w1 = (Inl err, w2)"
    and after: "task_B enrich after (w2\<lparr>console := console w2 @
             [Error [JStr ''Error enriching '', JStr (company_name (heap w2 company)),
                     JStr '': '', JStr (message err)]]\<rparr>) = (Inr rs2, w3)"
  shows "task_B enrich (before @ company # after) w = (Inr (rs1 @ rs2), w3)"
proof -
  let ?body = "\<lambda>company enrichedCompanies. queue_add (contact_task enrich company enrichedCompanies)"
  have "for_of before ?body [] w = (Inr rs1, w1)"
    using task_B_from [OF before, of "[]"] by simp
  moreover have "for_of (company # after) ?body rs1 w1 = (Inr (rs1 @ rs2), w3)"
    using task_B_from [OF after, of rs1]
    by (simp add: bind_action_def queue_add_def contact_task_result fails)
  ultimately show ?thesis
    by (simp add: task_B_def for_of_append)
qed


lemma tender_task_result:
  "tender_task tenders_of lookback company w =
     (case tenders_of company lookback w of
        (Inl err, w1) \<Rightarrow>
          (Inr (), w1\<lparr>console := console w1 @
             [Error [JStr ''Error fetching tenders for '', JStr (company_name (heap w1 company)),
                     JStr '': '', JStr (message err)]],
             heap := (heap w1)(company := (heap w1 company)\<lparr>tender_data := Present no_tenders\<rparr>)\<rparr>)
      | (Inr tenderData, w1) \<Rightarrow>
          (Inr (), w1\<lparr>heap := (heap w1)(company := (heap w1 company)\<lparr>tender_data := Present tenderData\<rparr>),
             console := console w1 @
             [Info [JStr ''Tenders for '', JStr (company_name (heap w1 company)), JStr '': '',
                    JNum (open_count tenderData), JStr '' open'']]\<rparr>))"
  by (simp add: tender_task_def try_catch_def bind_action_def read_object_def write_object_def
      log_info_def log_error_def no_tenders_def split: prod.splits sum.splits)

lemma task_C_Cons:
  "task_C tenders_of lookback (c # cs) w =
     task_C tenders_of lookback cs (snd (tender_task tenders_of lookback c w))"
  by (simp add: task_C_def bind_action_def queue_add_def tender_task_result
      split: prod.splits sum.splits)

lemma task_C_Nil: "task_C tenders_of lookback [] w = (Inr (), w)"
  by (simp add: task_C_def ret_def)

lemma task_C_returns: "\<exists>w'. task_C tenders_of lookback cs w = (Inr (), w')"
proof (induction cs arbitrary: w)
  case Nil
  show ?case by (simp add: task_C_def ret_def)
next
  case (Cons c cs)
  show ?case by (simp add: task_C_Cons Cons.IH)
qed

lemma task_C_append:
  "task_C tenders_of lookback (xs @ ys) w =
     task_C tenders_of lookback ys (snd (task_C tenders_of lookback xs w))"
proof (induction xs arbitrary: w)
  case Nil
  show ?case by (simp add: task_C_def ret_def)
next
  case (Cons x xs)
  show ?case by (simp add: task_C_Cons Cons.IH)
qed

lemma task_C_stores_fallback:
  assumes before: "task_C tenders_of lookback before w = (Inr (), w1)"
    and fails: "tenders_of company lookback w1 = (Inl err, w2)"
    and after: "task_C tenders_of lookback after (w2\<lparr>console := console w2 @
             [Error [JStr ''Error fetching tenders for '', JStr (company_name (heap w2 company)),
                     JStr '': '', JStr (message err)]],
             heap := (heap w2)(company := (heap w2 company)\<lparr>tender_data := Present no_tenders\<rparr>)\<rparr>)
           = (Inr (), w3)"
  shows "task_C tenders_of lookback (before @ company # after) w = (Inr (), w3)"
  by (simp add: task_C_append task_C_Cons before tender_task_result fails after)

lemma save_results_pushes:
  "heap (snd (save_results e rs w)) = heap w
   \<and> map pushed (dataset (snd (save_results e rs w))) = map pushed (dataset w) @ map (heap w) rs"
proof (induction rs arbitrary: w)
  case Nil
  show ?case by (simp add: save_results_def ret_def)
next
  case (Cons r rs)
  let ?w1 = "w\<lparr>clock_reads := Suc (clock_reads w),
                dataset := dataset w @ [\<lparr>pushed = heap w r, scraped_at = date_now e (clock_reads w)\<rparr>]\<rparr>"
  have "save_results e (r # rs) w = save_results e rs ?w1"
    by (simp add: save_results_def bind_action_def read_object_def date_toISOString_def pushData_def)
  then show ?case
    using Cons.IH [of ?w1] by simp
qed

lemma save_results_emits:
  "map pushed (drop (length (dataset w)) (dataset (snd (save_results e rs w)))) = map (heap w) rs"
proof -
  have "map pushed (drop (length (dataset w)) (dataset (snd (save_results e rs w))))
      = drop (length (map pushed (dataset w))) (map pushed (dataset (snd (save_results e rs w))))"
    by (simp add: drop_map)
  also have "\<dots> = map (heap w) rs"
    by (simp only: save_results_pushes append_eq_conv_conj drop_append length_map) simp
  finally show ?thesis .
qed


lemma task_B_keeps_success:
  assumes before: "task_B enrich before w = (Inr rs1, w1)"
    and succeeds: "enrich company w1 = (Inr enriched, w2)"
    and after: "task_B enrich after (w2\<lparr>console := console w2 @
             [Info [JStr ''Enriched: '', JStr (company_name (heap w2 enriched))]]\<rparr>) = (Inr rs2, w3)"
  shows "task_B enrich (before @ company # after) w = (Inr (rs1 @ enriched # rs2), w3)"
proof -
  let ?body = "\<lambda>company enrichedCompanies. queue_add (contact_task enrich company enrichedCompanies)"
  have "for_of before ?body [] w = (Inr rs1, w1)"
    using task_B_from [OF before, of "[]"] by simp
  moreover have "for_of (company # after) ?body rs1 w1 = (Inr (rs1 @ enriched # rs2), w3)"
    using task_B_from [OF after, of "rs1 @ [enriched]"]
    by (simp add: bind_action_def queue_add_def contact_task_result succeeds)
  ultimately show ?thesis
    by (simp add: task_B_def for_of_append)
qed

lemma save_results_Cons:
  "save_results e (r # rs) w =
     save_results e rs (w\<lparr>clock_reads := Suc (clock_reads w),
        dataset := dataset w @ [\<lparr>pushed = heap w r, scraped_at = date_now e (clock_reads w)\<rparr>]\<rparr>)"
  by (simp add: save_results_def bind_action_def read_object_def date_toISOString_def pushData_def)

lemma save_results_returns: "fst (save_results e rs w) = Inr ()"
proof (induction rs arbitrary: w)
  case Nil
  show ?case by (simp add: save_results_def ret_def)
next
  case (Cons r rs)
  show ?case by (simp add: save_results_Cons Cons.IH)
qed

lemma save_results_dataset:
  "\<exists>items. dataset (snd (save_results e rs w)) = dataset w @ items
      \<and> map pushed items = map (heap w) rs"
proof (induction rs arbitrary: w)
  case Nil
  show ?case by (simp add: save_results_def ret_def)
next
  case (Cons r rs)
  let ?item = "\<lparr>pushed = heap w r, scraped_at = date_now e (clock_reads w)\<rparr>"
  let ?w1 = "w\<lparr>clock_reads := Suc (clock_reads w), dataset := dataset w @ [?item]\<rparr>"
  from Cons.IH [of ?w1] obtain items where
    "dataset (snd (save_results e rs ?w1)) = dataset ?w1 @ items"
    and "map pushed items = map (heap ?w1) rs"
    by blast
  then have "dataset (snd (save_results e (r # rs) w)) = dataset w @ (?item # items)
      \<and> map pushed (?item # items) = map (heap w) (r # rs)"
    by (simp add: save_results_Cons)
  then show ?case by blast
qed

lemma main_with_saves_enriched:
  assumes config: "config = (case input of None \<Rightarrow> no_input | Some given \<Rightarrow> given)"
    and queue: "queue_create e (or_default (max_concurrent_requests config) 5) = Inr ()"
    and task_A: "scrapeTopCompanies (or_default (ranking_strategy config) ''revenue'')
        (or_default (top_n config) 100)
        (w\<lparr>console := console w @
           [Info [JStr ''Starting Austrian Companies Scraper''],
            Info [JStr ''Config: Strategy='', JStr (or_default (ranking_strategy config) ''revenue''),
                  JStr '', Top='', JNum (or_default (top_n config) 100),
                  JStr '', Tenders='', JBool (or_default (include_tenders config) True)],
            Info [JStr ''=== TASK A: Fetching top Austrian companies ==='']]\<rparr>)
        = (Inr companies, w1)"
    and pass_B: "task_B enrich companies
        (w1\<lparr>console := console w1 @
           [Info [JStr ''Found '', JNum (int (length companies)), JStr '' companies''],
            Info [JStr ''=== TASK B: Enriching contact data ==='']]\<rparr>)
        = (Inr enrichedCompanies, w2)"
    and pass_C: "if or_default (include_tenders config) True
        then task_C tenders_of (or_default (tender_lookback_months config) 12) enrichedCompanies
               (w2\<lparr>console := console w2 @ [Info [JStr ''=== TASK C: Fetching tender data ==='']]\<rparr>)
             = (Inr (), w3)
        else w3 = w2"
  shows "\<exists>w' items. main_with e enrich tenders_of input w = (Inr (), w')
     \<and> heap w' = heap w3
     \<and> dataset w' = dataset w3 @ items
     \<and> map pushed items = map (heap w3) enrichedCompanies"
proof -
  let ?w4 = "w3\<lparr>console := console w3 @ [Info [JStr ''=== Saving results ==='']]\<rparr>"
  define w5 where "w5 = snd (save_results e enrichedCompanies ?w4)"
  from save_results_dataset [of e enrichedCompanies ?w4] obtain items where
    items: "dataset w5 = dataset w3 @ items" "map pushed items = map (heap w3) enrichedCompanies"
    by (auto simp: w5_def)
  have heap: "heap w5 = heap w3"
    using save_results_pushes [of e enrichedCompanies ?w4] by (simp add: w5_def)
  have saved: "save_results e enrichedCompanies ?w4 = (Inr (), w5)"
    using save_results_returns [of e enrichedCompanies ?w4]
    unfolding w5_def by (metis prod.collapse)
  have prologue: "main_with e enrich tenders_of input w =
      (case bind_action
          (if or_default (include_tenders config) True
            then bind_action (log_info [JStr ''=== TASK C: Fetching tender data ===''])
                   (\<lambda>_. bind_action (task_C tenders_of (or_default (tender_lookback_months config) 12)
                            enrichedCompanies) (\<lambda>_. queue_onIdle))
            else ret ())
          (\<lambda>_. bind_action (log_info [JStr ''=== Saving results ==='']) (\<lambda>_.
               bind_action (save_results e enrichedCompanies) (\<lambda>_.
               log_info [JStr ''Successfully scraped '', JNum (int (length enrichedCompanies)),
                         JStr '' companies'']))) w2 of
         (Inl err, w') \<Rightarrow> (Inl err, w'\<lparr>console := console w' @ [Error [JStr ''Main error: '', JStr (message err)]]\<rparr>)
       | (Inr x, w') \<Rightarrow> (Inr x, w'))"
    by (simp add: main_with_def Let_def config [symmetric] bind_action_def log_info_def
        log_error_def throw_def new_PQueue_def queue openDataset_def ret_def try_catch_def
        task_A pass_B queue_onIdle_def split: prod.splits sum.splits)
  have "main_with e enrich tenders_of input w =
      (Inr (), w5\<lparr>console := console w5 @
            [Info [JStr ''Successfully scraped '', JNum (int (length enrichedCompanies)),
                   JStr '' companies'']]\<rparr>)"
  proof (cases "or_default (include_tenders config) True")
    case True
    with pass_C have "task_C tenders_of (or_default (tender_lookback_months config) 12)
        enrichedCompanies
        (w2\<lparr>console := console w2 @ [Info [JStr ''=== TASK C: Fetching tender data ==='']]\<rparr>)
        = (Inr (), w3)"
      by simp
    with True show ?thesis
      by (simp add: prologue bind_action_def log_info_def queue_onIdle_def ret_def saved)
  next
    case False
    with pass_C have "w2 = w3" by simp
    with False show ?thesis
      by (simp add: prologue bind_action_def log_info_def ret_def saved)
  qed
  with items heap show ?thesis by simp
qed


lemma main_with_omits_failed:
  assumes config: "config = (case input of None \<Rightarrow> no_input | Some given \<Rightarrow> given)"
    and queue: "queue_create e (or_default (max_concurrent_requests config) 5) = Inr ()"
    and task_A: "scrapeTopCompanies (or_default (ranking_strategy config) ''revenue'')
        (or_default (top_n config) 100)
        (v\<lparr>console := console v @
           [Info [JStr ''Starting Austrian Companies Scraper''],
            Info [JStr ''Config: Strategy='', JStr (or_default (ranking_strategy config) ''revenue''),
                  JStr '', Top='', JNum (or_default (top_n config) 100),
                  JStr '', Tenders='', JBool (or_default (include_tenders config) True)],
            Info [JStr ''=== TASK A: Fetching top Austrian companies ==='']]\<rparr>)
        = (Inr (before @ company # after), v1)"
    and before: "task_B enrich before
        (v1\<lparr>console := console v1 @
           [Info [JStr ''Found '', JNum (int (length (before @ company # after))), JStr '' companies''],
            Info [JStr ''=== TASK B: Enriching contact data ==='']]\<rparr>)
        = (Inr rs1, w1)"
    and fails: "enrich company w1 = (Inl err, w2)"
    and after: "task_B enrich after (w2\<lparr>console := console w2 @
             [Error [JStr ''Error enriching '', JStr (company_name (heap w2 company)),
                     JStr '': '', JStr (message err)]]\<rparr>) = (Inr rs2, v2)"
    and pass_C: "if or_default (include_tenders config) True
        then task_C tenders_of (or_default (tender_lookback_months config) 12) (rs1 @ rs2)
               (v2\<lparr>console := console v2 @ [Info [JStr ''=== TASK C: Fetching tender data ==='']]\<rparr>)
             = (Inr (), v3)
        else v3 = v2"
  shows "\<exists>w' items. main_with e enrich tenders_of input v = (Inr (), w')
     \<and> heap w' = heap v3
     \<and> dataset w' = dataset v3 @ items
     \<and> map pushed items = map (heap v3) (rs1 @ rs2)"
proof -
  from before fails after have "task_B enrich (before @ company # after)
        (v1\<lparr>console := console v1 @
           [Info [JStr ''Found '', JNum (int (length (before @ company # after))), JStr '' companies''],
            Info [JStr ''=== TASK B: Enriching contact data ==='']]\<rparr>)
        = (Inr (rs1 @ rs2), v2)"
    by (rule task_B_skips_failure)
  with config queue task_A show ?thesis
    using pass_C by (rule main_with_saves_enriched)
qed

text \<open>
  Claim C8. With the queue built, \<open>main\<close> returns and adds to the dataset exactly the
  objects of \<open>enrichedCompanies\<close>, in order, as they are after Task C, for every call
  inside the tasks. A company whose enrichment throws is not among them: when the
  companies of Task A are \<open>before\<close>, \<open>company\<close>, \<open>after\<close> and the call throws for
  \<open>company\<close>, the objects saved are those the companies before it gave, followed by those
  the companies after it give from the world the failed call left (with the error
  logged). In Task B a company whose enrichment returns adds the returned object at its
  place, and the pass never throws. In Task C a company whose tender lookup throws gets
  the \<open>tender_data\<close> with counts zero, no tenders and no \<open>last_tender_date\<close>, the pass goes
  on with the companies after it, and the pass never throws.
\<close>

theorem failures_are_caught_per_company:
  "(config = (case input of None \<Rightarrow> no_input | Some given \<Rightarrow> given)
      \<and> queue_create e (or_default (max_concurrent_requests config) 5) = Inr ()
      \<and> scrapeTopCompanies (or_default (ranking_strategy config) ''revenue'')
           (or_default (top_n config) 100)
           (v\<lparr>console := console v @
           [Info [JStr ''Starting Austrian Companies Scraper''],
            Info [JStr ''Config: Strategy='', JStr (or_default (ranking_strategy config) ''revenue''),
                  JStr '', Top='', JNum (or_default (top_n config) 100),
                  JStr '', Tenders='', JBool (or_default (include_tenders config) True)],
            Info [JStr ''=== TASK A: Fetching top Austrian companies ==='']]\<rparr>)
         = (Inr companies, v1)
      \<and> task_B enrich companies
           (v1\<lparr>console := console v1 @
              [Info [JStr ''Found '', JNum (int (length companies)), JStr '' companies''],
               Info [JStr ''=== TASK B: Enriching contact data ==='']]\<rparr>)
         = (Inr enrichedCompanies, v2)
      \<and> (if or_default (include_tenders config) True
          then task_C tenders_of (or_default (tender_lookback_months config) 12) enrichedCompanies
                 (v2\<lparr>console := console v2 @ [Info [JStr ''=== TASK C: Fetching tender data ==='']]\<rparr>)
               = (Inr (), v3)
          else v3 = v2)
     \<longrightarrow> (\<exists>w' items. main_with e enrich tenders_of input v = (Inr (), w')
           \<and> heap w' = heap v3
           \<and> dataset w' = dataset v3 @ items
           \<and> map pushed items = map (heap v3) enrichedCompanies))
   \<and> (config = (case input of None \<Rightarrow> no_input | Some given \<Rightarrow> given)
      \<and> queue_create e (or_default (max_concurrent_requests config) 5) = Inr ()
      \<and> scrapeTopCompanies (or_default (ranking_strategy config) ''revenue'')
           (or_default (top_n config) 100)
           (v\<lparr>console := console v @
           [Info [JStr ''Starting Austrian Companies Scraper''],
            Info [JStr ''Config: Strategy='', JStr (or_default (ranking_strategy config) ''revenue''),
                  JStr '', Top='', JNum (or_default (top_n config) 100),
                  JStr '', Tenders='', JBool (or_default (include_tenders config) True)],
            Info [JStr ''=== TASK A: Fetching top Austrian companies ==='']]\<rparr>)
         = (Inr (before @ company # after), v1)
      \<and> task_B enrich before
           (v1\<lparr>console := console v1 @
              [Info [JStr ''Found '', JNum (int (length (before @ company # after))), JStr '' companies''],
               Info [JStr ''=== TASK B: Enriching contact data ==='']]\<rparr>)
         = (Inr rs1, w1)
      \<and> enrich company w1 = (Inl err, w2)
      \<and> task_B enrich after (w2\<lparr>console := console w2 @
             [Error [JStr ''Error enriching '', JStr (company_name (heap w2 company)),
                     JStr '': '', JStr (message err)]]\<rparr>) = (Inr rs2, v2)
      \<and> (if or_default (include_tenders config) True
          then task_C tenders_of (or_default (tender_lookback_months config) 12) (rs1 @ rs2)
                 (v2\<lparr>console := console v2 @ [Info [JStr ''=== TASK C: Fetching tender data ==='']]\<rparr>)
               = (Inr (), v3)
          else v3 = v2)
     \<longrightarrow> (\<exists>w' items. main_with e enrich tenders_of input v = (Inr (), w')
           \<and> heap w' = heap v3
           \<and> dataset w' = dataset v3 @ items
           \<and> map pushed items = map (heap v3) (rs1 @ rs2)))
   \<and> (task_B enrich before w = (Inr rs1, w1)
      \<and> enrich company w1 = (Inr enriched, w2)
      \<and> task_B enrich after (w2\<lparr>console := console w2 @
             [Info [JStr ''Enriched: '', JStr (company_name (heap w2 enriched))]]\<rparr>) = (Inr rs2, w3)
     \<longrightarrow> task_B enrich (before @ company # after) w = (Inr (rs1 @ enriched # rs2), w3))
   \<and> (\<exists>rs w'. task_B enrich companies w = (Inr rs, w'))
   \<and> (task_C tenders_of lookback before w = (Inr (), w1)
      \<and> tenders_of company lookback w1 = (Inl err, w2)
      \<and> task_C tenders_of lookback after (w2\<lparr>console := console w2 @
             [Error [JStr ''Error fetching tenders for '', JStr (company_name (heap w2 company)),
                     JStr '': '', JStr (message err)]],
             heap := (heap w2)(company := (heap w2 company)\<lparr>tender_data := Present
               \<lparr>open_count = 0, closed_count = 0, tenders = [], last_tender_date = Absent\<rparr>\<rparr>)\<rparr>)
           = (Inr (), w3)
     \<longrightarrow> task_C tenders_of lookback (before @ company # after) w = (Inr (), w3))
   \<and> (\<exists>w'. task_C tenders_of lookback companies w = (Inr (), w'))"
  using main_with_saves_enriched [of config input e v companies v1 enrich enrichedCompanies v2
      tenders_of v3]
    main_with_omits_failed [of config input e v before company after v1 enrich rs1 w1 err w2 rs2
      v2 tenders_of v3]
    task_B_keeps_success [of enrich before w rs1 w1 company enriched w2 after rs2 w3]
    task_B_returns [of enrich companies w]
    task_C_stores_fallback [of tenders_of lookback before w w1 company err w2 after w3]
    task_C_returns [of tenders_of lookback companies w]
  unfolding no_tenders_def by blast


theorem failures_are_caught_per_company_witness:
  "fst (main_with sample_env failing_enrich failing_tenders None start_world) = Inr ()
   \<and> map (\<lambda>item. (company_name (pushed item), tender_data (pushed item)))
         (dataset (snd (main_with sample_env failing_enrich failing_tenders None start_world)))
       = [(''OMV Aktiengesellschaft'', Present
            \<lparr>open_count = 0, closed_count = 0, tenders = [], last_tender_date = Null\<rparr>),
          (''Erste Group Bank AG'', Present
            \<lparr>open_count = 0, closed_count = 0, tenders = [], last_tender_date = Absent\<rparr>)]"
proof -
  define vA where "vA = start_world\<lparr>console := console start_world @
           [Info [JStr ''Starting Austrian Companies Scraper''],
            Info [JStr ''Config: Strategy='', JStr (or_default (ranking_strategy no_input) ''revenue''),
                  JStr '', Top='', JNum (or_default (top_n no_input) 100),
                  JStr '', Tenders='', JBool (or_default (include_tenders no_input) True)],
            Info [JStr ''=== TASK A: Fetching top Austrian companies ==='']]\<rparr>"
  define v1 where "v1 = snd (scrapeTopCompanies (or_default (ranking_strategy no_input) ''revenue'')
        (or_default (top_n no_input) 100) vA)"
  define vB where "vB = v1\<lparr>console := console v1 @
           [Info [JStr ''Found '', JNum (int (length ([0] @ 1 # [2::nat]))), JStr '' companies''],
            Info [JStr ''=== TASK B: Enriching contact data ==='']]\<rparr>"
  define w1 where "w1 = snd (task_B failing_enrich [0] vB)"
  define wE where "wE = w1\<lparr>console := console w1 @
             [Error [JStr ''Error enriching '', JStr (company_name (heap w1 1)),
                     JStr '': '', JStr (message (JsError ''no contact''))]]\<rparr>"
  define v2 where "v2 = snd (task_B failing_enrich [2] wE)"
  define vC where "vC = v2\<lparr>console := console v2 @
           [Info [JStr ''=== TASK C: Fetching tender data ==='']]\<rparr>"
  define v3 where "v3 = snd (task_C failing_tenders (or_default (tender_lookback_months no_input) 12)
        ([0] @ [2]) vC)"
  have heap1: "heap v1 0 = seed_companies ! 0" "heap v1 2 = seed_companies ! 2" "dataset v1 = []"
    by (simp_all add: v1_def vA_def scrapeTopCompanies_result start_world_def)
  have config: "no_input = (case None of None \<Rightarrow> no_input | Some given \<Rightarrow> given)"
    by simp
  have queue: "queue_create sample_env (or_default (max_concurrent_requests no_input) 5) = Inr ()"
    by (simp add: sample_env_def no_input_def or_default_def)
  have task_A: "scrapeTopCompanies (or_default (ranking_strategy no_input) ''revenue'')
        (or_default (top_n no_input) 100) vA = (Inr ([0] @ 1 # [2]), v1)"
    by (simp add: v1_def vA_def scrapeTopCompanies_result start_world_def no_input_def
        or_default_def)
  have before: "task_B failing_enrich [0] vB = (Inr [0], w1)"
    by (simp add: w1_def task_B_def bind_action_def queue_add_def contact_task_result
        failing_enrich_def ret_def)
  have fails: "failing_enrich 1 w1 = (Inl (JsError ''no contact''), w1)"
    by (simp add: failing_enrich_def throw_def)
  have after: "task_B failing_enrich [2] wE = (Inr [2], v2)"
    by (simp add: v2_def task_B_def bind_action_def queue_add_def contact_task_result
        failing_enrich_def ret_def)
  have pass_C: "if or_default (include_tenders no_input) True
        then task_C failing_tenders (or_default (tender_lookback_months no_input) 12) ([0] @ [2]) vC
             = (Inr (), v3)
        else v3 = v2"
    using task_C_returns [of failing_tenders "or_default (tender_lookback_months no_input) 12"
        "[0] @ [2]" vC]
    by (auto simp: v3_def no_input_def or_default_def)
  from failures_are_caught_per_company [where config = no_input and input = None
      and e = sample_env and v = start_world and before = "[0]" and company = 1 and after = "[2]"
      and ?v1.0 = v1 and enrich = failing_enrich and ?rs1.0 = "[0]" and ?w1.0 = w1
      and err = "JsError ''no contact''" and ?w2.0 = w1 and ?rs2.0 = "[2]" and ?v2.0 = v2
      and tenders_of = failing_tenders and ?v3.0 = v3]
    config queue task_A before fails after pass_C
  obtain w' items where
    run: "main_with sample_env failing_enrich failing_tenders None start_world = (Inr (), w')"
    and saved: "dataset w' = dataset v3 @ items" "map pushed items = map (heap v3) ([0] @ [2])"
    unfolding vA_def vB_def wE_def vC_def by blast
  have heapB: "heap v2 = heap v1" "dataset v2 = dataset v1"
    by (simp_all add: v2_def wE_def w1_def vB_def task_B_def bind_action_def queue_add_def
        contact_task_result failing_enrich_def ret_def)
  have v3: "heap v3 = (heap v2)
        (0 := (heap v2 0)\<lparr>tender_data := Present
           \<lparr>open_count = 0, closed_count = 0, tenders = [], last_tender_date = Null\<rparr>\<rparr>,
         2 := (heap v2 2)\<lparr>tender_data := Present
           \<lparr>open_count = 0, closed_count = 0, tenders = [], last_tender_date = Absent\<rparr>\<rparr>)"
    "dataset v3 = dataset v2"
    by (simp_all add: v3_def vC_def task_C_Cons task_C_Nil tender_task_result failing_tenders_def
        scrapeTenderData_def try_catch_def bind_action_def read_object_def log_info_def ret_def
        throw_def no_tenders_def)
  have "dataset w' = items"
    using saved by (simp add: v3 heapB heap1)
  then have "map (\<lambda>item. (company_name (pushed item), tender_data (pushed item))) (dataset w')
      = map (\<lambda>c. (company_name c, tender_data c)) (map pushed items)"
    by (simp add: comp_def)
  also have "\<dots> = map (\<lambda>c. (company_name c, tender_data c)) (map (heap v3) [0, 2])"
    using saved by simp
  also have "\<dots> = [(''OMV Aktiengesellschaft'', Present
            \<lparr>open_count = 0, closed_count = 0, tenders = [], last_tender_date = Null\<rparr>),
          (''Erste Group Bank AG'', Present
            \<lparr>open_count = 0, closed_count = 0, tenders = [], last_tender_date = Absent\<rparr>)]"
    by (simp add: v3 heapB heap1 seed_companies_def)
  finally show ?thesis
    by (simp add: run)
qed

end
